theory Spec2Isabelle
  imports Main "HOL-Library.AList" "HOL-Library.Sublist"
begin

section \<open>Python values, exceptions and library functions\<close>

text \<open>
  The DNSE streaming client (\<^verbatim>\<open>connector/dnse/test_cli.py\<close> and its notebook
  predecessor \<^verbatim>\<open>connector/dnse/stream.py\<close>) works on dynamically typed values:
  decoded JSON payloads, YAML documents, the result of \<^verbatim>\<open>ast.literal_eval\<close>.
  \<open>pyval\<close> is the part of Python's value universe these programs meet. Floats are
  kept abstract (the type parameter \<open>'f\<close>): the code never computes with them, it
  only coerces values to \<^verbatim>\<open>float\<close> and stores them. Dictionaries are association
  lists; a key is looked up with \<open>map_of\<close> and stored with \<open>AList.update\<close>.
\<close>

datatype 'f pyval =
    PNone
  | PBool bool
  | PInt int
  | PFloat 'f
  | PStr string
  | PList "'f pyval list"
  | PTuple "'f pyval list"
  | PDict "('f pyval \<times> 'f pyval) list"

text \<open>
  Exception classes the code raises, catches or lets through. \<open>catches h e\<close> says
  that a handler \<^verbatim>\<open>except h\<close> catches an exception of class \<open>e\<close>:
  \<^verbatim>\<open>json.JSONDecodeError\<close>, \<^verbatim>\<open>UnicodeDecodeError\<close> and \<^verbatim>\<open>UnicodeEncodeError\<close>
  are subclasses of \<^verbatim>\<open>ValueError\<close>; among the other classes listed none is a subclass
  of another.
\<close>

datatype exc_type =
    ValueError | JSONDecodeError | UnicodeDecodeError | UnicodeEncodeError | TypeError | KeyError
  | AttributeError | OverflowError | SyntaxError | MemoryError | RecursionError
  | FileNotFoundError | IsADirectoryError | PermissionError | YAMLError | HTTPError
  | ConnectionError

datatype py_error = PyErr exc_type string

definition catches :: "exc_type \<Rightarrow> exc_type \<Rightarrow> bool" where
  "catches h e =
     (h = e \<or>
      (h = ValueError \<and>
       (e = JSONDecodeError \<or> e = UnicodeDecodeError \<or> e = UnicodeEncodeError)))"

fun exc_class :: "py_error \<Rightarrow> exc_type" where
  "exc_class (PyErr t m) = t"

fun str_of_error :: "py_error \<Rightarrow> string" where
  "str_of_error (PyErr t m) = m"

text \<open>
  The library functions the code calls are parameters of the model; \<open>Inl\<close> is a raised
  exception, \<open>None\<close> a failed conversion.
  \<^item> \<open>json_loads\<close>: \<^verbatim>\<open>json.loads(msg.payload.decode())\<close> on the payload bytes, which
    raises \<^verbatim>\<open>UnicodeDecodeError\<close> or \<^verbatim>\<open>JSONDecodeError\<close> or returns the value;
  \<^item> \<open>str_to_float\<close>: the float a string denotes, \<open>None\<close> where \<^verbatim>\<open>float(s)\<close> raises
    \<^verbatim>\<open>ValueError\<close>;
  \<^item> \<open>int_to_float\<close>: the float nearest to an integer, \<open>None\<close> where \<^verbatim>\<open>float(i)\<close>
    raises \<^verbatim>\<open>OverflowError\<close>;
  \<^item> \<open>literal_eval\<close>: \<^verbatim>\<open>ast.literal_eval\<close> on a string;
  \<^item> \<open>safe_load\<close>: \<^verbatim>\<open>yaml.safe_load\<close> on the text of a file.
\<close>

record 'f pylib =
  json_loads :: "string \<Rightarrow> py_error + 'f pyval"
  str_to_float :: "string \<Rightarrow> 'f option"
  int_to_float :: "int \<Rightarrow> 'f option"
  literal_eval :: "string \<Rightarrow> py_error + 'f pyval"
  safe_load :: "string \<Rightarrow> py_error + 'f pyval"

fun type_name :: "'f pyval \<Rightarrow> string" where
  "type_name PNone = ''NoneType''"
| "type_name (PBool b) = ''bool''"
| "type_name (PInt i) = ''int''"
| "type_name (PFloat x) = ''float''"
| "type_name (PStr s) = ''str''"
| "type_name (PList xs) = ''list''"
| "type_name (PTuple xs) = ''tuple''"
| "type_name (PDict kvs) = ''dict''"

text \<open>\<^verbatim>\<open>repr\<close> of a string without quotes or escapes in it: the string in single quotes.\<close>

definition quote :: "string \<Rightarrow> string" where
  "quote s = [CHR 0x27] @ s @ [CHR 0x27]"

fun is_str :: "'f pyval \<Rightarrow> bool" where
  "is_str (PStr s) = True"
| "is_str v = False"

fun is_list :: "'f pyval \<Rightarrow> bool" where
  "is_list (PList xs) = True"
| "is_list v = False"

fun is_dict :: "'f pyval \<Rightarrow> bool" where
  "is_dict (PDict kvs) = True"
| "is_dict v = False"

fun the_str :: "'f pyval \<Rightarrow> string" where
  "the_str (PStr s) = s"
| "the_str v = []"

text \<open>
  The builtin \<^verbatim>\<open>float(v)\<close>: a float is returned as it is, an integer or a boolean is
  converted, a string is parsed (\<^verbatim>\<open>ValueError\<close> when it denotes no float), and every
  other value, \<^verbatim>\<open>None\<close> among them, raises \<^verbatim>\<open>TypeError\<close>.
\<close>

fun py_float :: "'f pylib \<Rightarrow> 'f pyval \<Rightarrow> py_error + 'f pyval" where
  "py_float L (PFloat x) = Inr (PFloat x)"
| "py_float L (PInt i) =
     (case int_to_float L i of
        Some x \<Rightarrow> Inr (PFloat x)
      | None \<Rightarrow> Inl (PyErr OverflowError ''int too large to convert to float''))"
| "py_float L (PBool b) =
     (case int_to_float L (if b then 1 else 0) of
        Some x \<Rightarrow> Inr (PFloat x)
      | None \<Rightarrow> Inl (PyErr OverflowError ''int too large to convert to float''))"
| "py_float L (PStr s) =
     (case str_to_float L s of
        Some x \<Rightarrow> Inr (PFloat x)
      | None \<Rightarrow> Inl (PyErr ValueError (''could not convert string to float: '' @ quote s)))"
| "py_float L v =
     Inl (PyErr TypeError
       (''float() argument must be a string or a real number, not '' @ quote (type_name v)))"

text \<open>
  \<^verbatim>\<open>key in v\<close> for a string \<open>key\<close>: membership among a dictionary's keys or a
  sequence's elements, substring search in a string, \<^verbatim>\<open>TypeError\<close> on a value that
  is not a container.
\<close>

fun py_contains :: "string \<Rightarrow> 'f pyval \<Rightarrow> py_error + bool" where
  "py_contains key (PDict kvs) = Inr (PStr key \<in> set (map fst kvs))"
| "py_contains key (PList xs) = Inr (PStr key \<in> set xs)"
| "py_contains key (PTuple xs) = Inr (PStr key \<in> set xs)"
| "py_contains key (PStr s) = Inr (sublist key s)"
| "py_contains key v =
     Inl (PyErr TypeError (''argument of type '' @ quote (type_name v) @ '' is not iterable''))"

text \<open>\<^verbatim>\<open>v[key]\<close> for a string \<open>key\<close>: only a dictionary can be indexed by a string.\<close>

fun py_getitem :: "'f pyval \<Rightarrow> string \<Rightarrow> py_error + 'f pyval" where
  "py_getitem (PDict kvs) key =
     (case map_of kvs (PStr key) of
        Some v \<Rightarrow> Inr v
      | None \<Rightarrow> Inl (PyErr KeyError (quote key)))"
| "py_getitem (PList xs) key =
     Inl (PyErr TypeError ''list indices must be integers or slices, not str'')"
| "py_getitem (PTuple xs) key =
     Inl (PyErr TypeError ''tuple indices must be integers or slices, not str'')"
| "py_getitem (PStr s) key =
     Inl (PyErr TypeError (''string indices must be integers, not '' @ quote ''str''))"
| "py_getitem v key =
     Inl (PyErr TypeError (quote (type_name v) @ '' object is not subscriptable''))"

text \<open>\<^verbatim>\<open>v[key] = x\<close> for a string \<open>key\<close>.\<close>

fun py_setitem :: "'f pyval \<Rightarrow> string \<Rightarrow> 'f pyval \<Rightarrow> py_error + 'f pyval" where
  "py_setitem (PDict kvs) key x = Inr (PDict (AList.update (PStr key) x kvs))"
| "py_setitem (PList xs) key x =
     Inl (PyErr TypeError ''list indices must be integers or slices, not str'')"
| "py_setitem v key x =
     Inl (PyErr TypeError (quote (type_name v) @ '' object does not support item assignment''))"

text \<open>
  Iterating over a value (\<^verbatim>\<open>for topic in topics\<close>): the elements of a list or tuple,
  the keys of a dictionary, the characters of a string; other values are not iterable.
\<close>

fun py_iter :: "'f pyval \<Rightarrow> py_error + 'f pyval list" where
  "py_iter (PList xs) = Inr xs"
| "py_iter (PTuple xs) = Inr xs"
| "py_iter (PDict kvs) = Inr (map fst kvs)"
| "py_iter (PStr s) = Inr (map (\<lambda>c. PStr [c]) s)"
| "py_iter v = Inl (PyErr TypeError (quote (type_name v) @ '' object is not iterable''))"

section \<open>The client's state and the effects it performs\<close>

text \<open>
  \<^verbatim>\<open>Config.__init__\<close> of \<^verbatim>\<open>test_cli.py\<close> fills these attributes; the four reconnect
  parameters are the literals 1, 2, 12 and 60. (\<^verbatim>\<open>CLIENT_ID\<close>, a fixed prefix followed
  by a random number, plays no part below and is left out.)
\<close>

record 'f Config =
  user_name :: "'f pyval"
  password :: "'f pyval"
  BROKER :: string
  PORT :: int
  TOPICS :: "string list"
  USERNAME :: "'f pyval"
  PASSWORD :: "'f pyval"
  FIRST_RECONNECT_DELAY :: int
  RECONNECT_RATE :: int
  MAX_RECONNECT_COUNT :: int
  MAX_RECONNECT_DELAY :: int

text \<open>
  The effects of the callbacks, in the order they happen: a log record (level, the
  message template as written in the source, its arguments), \<^verbatim>\<open>time.sleep\<close>, a call of
  \<^verbatim>\<open>client.reconnect()\<close>, a call of \<^verbatim>\<open>client.subscribe\<close> with its list of
  (topic, QoS) pairs, a call of \<^verbatim>\<open>client.connect\<close> and the entry into
  \<^verbatim>\<open>client.loop_forever()\<close>.
\<close>

datatype level = DEBUG | INFO | ERROR

datatype 'f event =
    Log level string "'f pyval list"
  | Sleep int
  | Reconnect
  | Subscribe "(string \<times> nat) list"
  | Connect string int
  | LoopForever

text \<open>
  The sink: CSV files by name, each a list of written lines. A line is the header
  (\<^verbatim>\<open>writer.writeheader()\<close>) or a record row (\<^verbatim>\<open>writer.writerow\<close>), kept as the
  cell values before they are rendered as text.
\<close>

datatype 'f csv_line = Header "string list" | Row "'f pyval list"

type_synonym 'f files = "string \<Rightarrow> 'f csv_line list option"

text \<open>
  An \<^verbatim>\<open>MQTTClient\<close> object (\<open>config\<close>, \<open>FLAG_EXIT\<close>) together with what it acts
  on: the trace of effects performed so far and the sink files.
\<close>

record 'f state =
  config :: "'f Config"
  FLAG_EXIT :: bool
  trace :: "'f event list"
  files :: "'f files"

definition emit :: "'f event list \<Rightarrow> 'f state \<Rightarrow> 'f state" where
  "emit es st = st\<lparr>trace := trace st @ es\<rparr>"

fun sleeps :: "'f event list \<Rightarrow> int list" where
  "sleeps [] = []"
| "sleeps (Sleep d # es) = d # sleeps es"
| "sleeps (e # es) = sleeps es"

fun reconnects :: "'f event list \<Rightarrow> nat" where
  "reconnects [] = 0"
| "reconnects (Reconnect # es) = Suc (reconnects es)"
| "reconnects (e # es) = reconnects es"

fun subscribes :: "'f event list \<Rightarrow> (string \<times> nat) list list" where
  "subscribes [] = []"
| "subscribes (Subscribe ts # es) = ts # subscribes es"
| "subscribes (e # es) = subscribes es"

fun logs :: "level \<Rightarrow> 'f event list \<Rightarrow> string list" where
  "logs l [] = []"
| "logs l (Log l' m args # es) = (if l' = l then m # logs l es else logs l es)"
| "logs l (e # es) = logs l es"

section \<open>The reconnection loop: \<^verbatim>\<open>MQTTClient.on_disconnect\<close>\<close>

text \<open>
  \<^verbatim>\<open>client.reconnect()\<close> is the environment's: \<open>reconnect k\<close> is the outcome of the
  call made in attempt \<open>k\<close> (counted from 0) of this disconnect event, \<open>None\<close> when
  it returns and \<open>Some err\<close> when it raises the exception \<open>err\<close>.
  \<^verbatim>\<open>time.sleep\<close> raises \<^verbatim>\<open>ValueError\<close> on a negative length; it stands outside the
  \<^verbatim>\<open>try\<close>, so that error leaves the callback.
\<close>

function reconnect_loop ::
  "(nat \<Rightarrow> py_error option) \<Rightarrow> int \<Rightarrow> int \<Rightarrow> 'f state \<Rightarrow> (py_error + unit) \<times> 'f state" where
  "reconnect_loop reconnect reconnect_count reconnect_delay st =
     (if reconnect_count < MAX_RECONNECT_COUNT (config st) then
        (let st1 = emit [Log INFO ''Reconnecting in %d seconds...'' [PInt reconnect_delay]] st in
         if reconnect_delay < 0 then
           (Inl (PyErr ValueError ''sleep length must be non-negative''), st1)
         else
           (let st2 = emit [Sleep reconnect_delay, Reconnect] st1 in
            case reconnect (nat reconnect_count) of
              None \<Rightarrow> (Inr (), emit [Log INFO ''Reconnected successfully!'' []] st2)
            | Some err \<Rightarrow>
                reconnect_loop reconnect (reconnect_count + 1)
                  (min (reconnect_delay * RECONNECT_RATE (config st)) (MAX_RECONNECT_DELAY (config st)))
                  (emit [Log ERROR ''%s. Reconnect failed. Retrying...'' [PStr (str_of_error err)]] st2)))
      else
        (Inr (),
         (emit [Log INFO ''Reconnect failed after %s attempts. Exiting...'' [PInt reconnect_count]] st)
           \<lparr>FLAG_EXIT := True\<rparr>))"
  by pat_completeness auto
termination
  by (relation "measure (\<lambda>(reconnect, reconnect_count, reconnect_delay, st).
        nat (MAX_RECONNECT_COUNT (config st) - reconnect_count))")
     (auto simp: emit_def)

declare reconnect_loop.simps [simp del]

definition on_disconnect ::
  "(nat \<Rightarrow> py_error option) \<Rightarrow> int \<Rightarrow> 'f state \<Rightarrow> (py_error + unit) \<times> 'f state" where
  "on_disconnect reconnect rc st =
     reconnect_loop reconnect 0 (FIRST_RECONNECT_DELAY (config st))
       (emit [Log INFO ''Disconnected with result code: %s'' [PInt rc]] st)"

section \<open>\<^verbatim>\<open>MQTTClient.on_connect\<close>\<close>

text \<open>
  \<^verbatim>\<open>test_cli.py\<close>: the subscription is made when \<^verbatim>\<open>rc == 0 and client.is_connected()\<close>;
  \<open>is_connected\<close> is what the transport's client answers. Each topic is paired with
  \<^verbatim>\<open>SubscribeOptions(qos=2)\<close>, kept here as the QoS number.
\<close>

definition on_connect :: "bool \<Rightarrow> int \<Rightarrow> 'f state \<Rightarrow> (py_error + unit) \<times> 'f state" where
  "on_connect is_connected rc st =
     (if rc = 0 \<and> is_connected then
        (let st1 = emit [Log INFO ''Connected to MQTT Broker!'' []] st;
             topic_tuple = map (\<lambda>topic. (topic, 2)) (TOPICS (config st))
         in (Inr (), emit [Subscribe topic_tuple] st1))
      else
        (Inr (), emit [Log ERROR ''Failed to connect, return code {rc}'' [PInt rc]] st))"

text \<open>
  \<^verbatim>\<open>stream.py\<close>: the topics are the class constant \<^verbatim>\<open>Config.TOPICS\<close> and the test is
  \<^verbatim>\<open>rc == 0\<close> alone.
\<close>

definition stream_TOPICS :: "string list" where
  "stream_TOPICS =
     [''plaintext/quotes/derivative/OHLC/1/VN30F1M'', ''plaintext/quotes/stock/tick/+'']"

definition stream_on_connect :: "int \<Rightarrow> 'f state \<Rightarrow> (py_error + unit) \<times> 'f state" where
  "stream_on_connect rc st =
     (if rc = 0 then
        (let st1 = emit [Log INFO ''Connected to MQTT Broker!'' []] st;
             topic_tuple = map (\<lambda>topic. (topic, 2)) stream_TOPICS
         in (Inr (), emit [Subscribe topic_tuple] st1))
      else
        (Inr (), emit [Log ERROR ''Failed to connect, return code {rc}'' [PInt rc]] st))"

section \<open>The sink: \<^verbatim>\<open>append_tick_to_csv\<close>\<close>

definition fieldnames :: "string list" where
  "fieldnames =
     [''symbol'', ''matchPrice'', ''matchQtty'', ''time'', ''side'', ''session'', ''low'',
      ''open'', ''lastUpdated'', ''volume'', ''close'', ''type'', ''high'']"

text \<open>
  \<^verbatim>\<open>csv.DictWriter._dict_to_list\<close> with the defaults the code leaves in place
  (\<^verbatim>\<open>extrasaction='raise'\<close>, \<^verbatim>\<open>restval=''\<close>): a key outside \<open>fieldnames\<close> raises
  \<^verbatim>\<open>ValueError\<close>; otherwise the row has one cell per field name, the empty string
  where the dictionary has no such key. A value without \<^verbatim>\<open>keys()\<close> raises
  \<^verbatim>\<open>AttributeError\<close>.
\<close>

definition dict_to_list :: "'f pyval \<Rightarrow> py_error + 'f pyval list" where
  "dict_to_list rowdict =
     (case rowdict of
        PDict kvs \<Rightarrow>
          (let wrong_fields = filter (\<lambda>k. k \<notin> set (map PStr fieldnames)) (map fst kvs) in
           if wrong_fields \<noteq> [] then
             Inl (PyErr ValueError ''dict contains fields not in fieldnames: {wrong_fields}'')
           else
             Inr (map (\<lambda>key. case map_of kvs (PStr key) of Some v \<Rightarrow> v | None \<Rightarrow> PStr [])
                    fieldnames))
      | _ \<Rightarrow>
          Inl (PyErr AttributeError
            (quote (type_name rowdict) @ '' object has no attribute '' @ quote ''keys'')))"

text \<open>
  Opening and writing can fail, and whether they do is the environment's:
  \<^item> \<open>open_append filename\<close> is the exception \<^verbatim>\<open>open(filename, 'a')\<close> raises, if any
    (an \<^verbatim>\<open>OSError\<close>: the name is a directory, permission is denied, ...);
  \<^item> \<open>write_line filename line\<close> is the exception the writer raises when it formats
    the line and writes it to that file, if any: \<^verbatim>\<open>UnicodeEncodeError\<close> when a cell
    has a character the file's encoding lacks (a lone surrogate from a JSON escape, for
    one), or an \<^verbatim>\<open>OSError\<close> of the device.
\<close>

record 'f sink_io =
  open_append :: "string \<Rightarrow> py_error option"
  write_line :: "string \<Rightarrow> 'f csv_line \<Rightarrow> py_error option"

text \<open>
  \<^verbatim>\<open>os.path.isfile\<close> is asked before the file is opened; \<^verbatim>\<open>open(filename, 'a')\<close>
  creates a missing file; the header is written when the file did not exist. The first
  exception ends the function; what was written before it stays in the file, which the
  \<^verbatim>\<open>with\<close> block closes.
\<close>

definition append_tick_to_csv ::
  "'f sink_io \<Rightarrow> 'f pyval \<Rightarrow> string \<Rightarrow> 'f files \<Rightarrow> (py_error + unit) \<times> 'f files" where
  "append_tick_to_csv S tick_data filename fs =
     (let file_exists = (fs filename \<noteq> None) in
      case open_append S filename of
        Some e \<Rightarrow> (Inl e, fs)
      | None \<Rightarrow>
          (let opened = (case fs filename of None \<Rightarrow> [] | Some written \<Rightarrow> written) in
           case (if \<not> file_exists then write_line S filename (Header fieldnames) else None) of
             Some e \<Rightarrow> (Inl e, fs(filename \<mapsto> opened))
           | None \<Rightarrow>
               (let headed = (if \<not> file_exists then opened @ [Header fieldnames] else opened) in
                case dict_to_list tick_data of
                  Inl e \<Rightarrow> (Inl e, fs(filename \<mapsto> headed))
                | Inr cells \<Rightarrow>
                    (case write_line S filename (Row cells) of
                       Some e \<Rightarrow> (Inl e, fs(filename \<mapsto> headed))
                     | None \<Rightarrow> (Inr (), fs(filename \<mapsto> headed @ [Row cells]))))))"

section \<open>\<^verbatim>\<open>MQTTClient.on_message\<close>\<close>

text \<open>
  The body of the \<^verbatim>\<open>try\<close>: both fields are read, coerced and stored back, the
  record is appended to \<^verbatim>\<open>tick_data.csv\<close> (the default file name) and a debug record
  is logged. The first exception ends it, with the state as it is at that point.
\<close>

definition on_message_try ::
  "'f pylib \<Rightarrow> 'f sink_io \<Rightarrow> 'f pyval \<Rightarrow> 'f state \<Rightarrow> (py_error + unit) \<times> 'f state" where
  "on_message_try L S payload st =
     (case py_getitem payload ''matchPrice'' of
        Inl e \<Rightarrow> (Inl e, st)
      | Inr price \<Rightarrow>
     (case py_float L price of
        Inl e \<Rightarrow> (Inl e, st)
      | Inr price_f \<Rightarrow>
     (case py_setitem payload ''matchPrice'' price_f of
        Inl e \<Rightarrow> (Inl e, st)
      | Inr payload1 \<Rightarrow>
     (case py_getitem payload1 ''matchQtty'' of
        Inl e \<Rightarrow> (Inl e, st)
      | Inr qtty \<Rightarrow>
     (case py_float L qtty of
        Inl e \<Rightarrow> (Inl e, st)
      | Inr qtty_f \<Rightarrow>
     (case py_setitem payload1 ''matchQtty'' qtty_f of
        Inl e \<Rightarrow> (Inl e, st)
      | Inr payload2 \<Rightarrow>
     (case append_tick_to_csv S payload2 ''tick_data.csv'' (files st) of
        (Inl e, fs) \<Rightarrow> (Inl e, st\<lparr>files := fs\<rparr>)
      | (Inr u, fs) \<Rightarrow>
          (Inr (), emit [Log DEBUG ''Received tick data: {payload}'' [payload2]]
                     (st\<lparr>files := fs\<rparr>)))))))))"

text \<open>
  The callback: the payload is decoded outside the \<^verbatim>\<open>try\<close>; the guard tests both
  keys (\<^verbatim>\<open>and\<close> evaluates its second operand only when the first holds); the handler
  is \<^verbatim>\<open>except ValueError\<close>, which also catches what the sink raises under that class.
  \<^verbatim>\<open>stream.py\<close> has the same function, word for word.
\<close>

definition on_message ::
  "'f pylib \<Rightarrow> 'f sink_io \<Rightarrow> string \<Rightarrow> 'f state \<Rightarrow> (py_error + unit) \<times> 'f state" where
  "on_message L S payload_bytes st =
     (case json_loads L payload_bytes of
        Inl e \<Rightarrow> (Inl e, st)
      | Inr payload \<Rightarrow>
     (case py_contains ''matchPrice'' payload of
        Inl e \<Rightarrow> (Inl e, st)
      | Inr has_price \<Rightarrow>
     (case (if has_price then py_contains ''matchQtty'' payload else Inr False) of
        Inl e \<Rightarrow> (Inl e, st)
      | Inr has_both \<Rightarrow>
          if has_both then
            (case on_message_try L S payload st of
               (Inl e, st') \<Rightarrow>
                 if catches ValueError (exc_class e) then
                   (Inr (), emit [Log ERROR ''Invalid data format, skipping tick.'' []] st')
                 else (Inl e, st')
             | (Inr u, st') \<Rightarrow> (Inr u, st'))
          else (Inr (), st))))"

section \<open>Credentials and authentication\<close>

text \<open>
  \<^verbatim>\<open>yaml_creds\<close> reads a text file: \<open>open_read path\<close> is what opening the file
  for reading gives, its text or the exception raised (\<^verbatim>\<open>FileNotFoundError\<close> when no
  such file exists, another \<^verbatim>\<open>OSError\<close> such as \<^verbatim>\<open>IsADirectoryError\<close> or
  \<^verbatim>\<open>PermissionError\<close> otherwise). First the body of the \<^verbatim>\<open>try\<close>, then the three
  handlers in their order.
\<close>

definition yaml_creds_try ::
  "'f pylib \<Rightarrow> (string \<Rightarrow> py_error + string) \<Rightarrow> string \<Rightarrow> py_error + ('f pyval \<times> 'f pyval)" where
  "yaml_creds_try L open_read path =
     (case open_read path of
        Inl e \<Rightarrow> Inl e
      | Inr f \<Rightarrow>
     (case safe_load L f of
        Inl e \<Rightarrow> Inl e
      | Inr creds \<Rightarrow>
          if \<not> is_dict creds then
            Inl (PyErr ValueError
              ''The credentials file format is incorrect. Expected a dictionary.'')
          else
     (case py_getitem creds ''usr'' of
        Inl e \<Rightarrow> Inl e
      | Inr username \<Rightarrow>
     (case py_getitem creds ''pwd'' of
        Inl e \<Rightarrow> Inl e
      | Inr password' \<Rightarrow> Inr (username, password')))))"

definition yaml_creds ::
  "'f pylib \<Rightarrow> (string \<Rightarrow> py_error + string) \<Rightarrow> string \<Rightarrow> py_error + ('f pyval \<times> 'f pyval)" where
  "yaml_creds L open_read path =
     (case yaml_creds_try L open_read path of
        Inr creds \<Rightarrow> Inr creds
      | Inl e \<Rightarrow>
          if catches FileNotFoundError (exc_class e) then
            Inl (PyErr FileNotFoundError (''The file '' @ path @ '' does not exist.''))
          else if catches YAMLError (exc_class e) then
            Inl (PyErr ValueError (''Error parsing the YAML file: '' @ str_of_error e))
          else if catches KeyError (exc_class e) then
            Inl (PyErr KeyError
              (''Missing required key in the credentials file: '' @ str_of_error e))
          else Inl e)"

text \<open>
  An HTTP exchange with the DNSE user service. A request is its method, its URL, the
  bearer token of its \<^verbatim>\<open>authorization\<close> header and the dictionary sent as JSON; a
  response is its status code and what \<^verbatim>\<open>response.json()\<close> gives. The service is the
  environment's: \<open>http\<close> answers a request or raises.
  \<^verbatim>\<open>Response.raise_for_status\<close> raises \<^verbatim>\<open>HTTPError\<close> for a status from 400 to 599
  and returns \<^verbatim>\<open>None\<close> for any other.
\<close>

record 'f request =
  meth :: string
  url :: string
  bearer :: "'f pyval option"
  body :: "'f pyval option"

record 'f response =
  status_code :: int
  json_body :: "py_error + 'f pyval"

definition raise_for_status :: "'f response \<Rightarrow> py_error + unit" where
  "raise_for_status response =
     (if 400 \<le> status_code response \<and> status_code response < 500 then
        Inl (PyErr HTTPError ''{status_code} Client Error: {reason} for url: {url}'')
      else if 500 \<le> status_code response \<and> status_code response < 600 then
        Inl (PyErr HTTPError ''{status_code} Server Error: {reason} for url: {url}'')
      else Inr ())"

text \<open>
  \<^verbatim>\<open>Auth._get_token\<close> and \<^verbatim>\<open>Auth._get_investorid\<close> of \<^verbatim>\<open>test_cli.py\<close>: a function
  that ends without \<^verbatim>\<open>return\<close> returns \<^verbatim>\<open>None\<close>, which is what happens after
  \<^verbatim>\<open>raise_for_status()\<close> returns.
\<close>

definition Auth_get_token ::
  "('f request \<Rightarrow> py_error + 'f response) \<Rightarrow> 'f pyval \<Rightarrow> 'f pyval \<Rightarrow> py_error + 'f pyval" where
  "Auth_get_token http username password' =
     (case http \<lparr>meth = ''POST'',
                  url = ''https://services.entrade.com.vn/dnse-user-service/api/auth'',
                  bearer = None,
                  body = Some (PDict [(PStr ''username'', username),
                                      (PStr ''password'', password')])\<rparr> of
        Inl e \<Rightarrow> Inl e
      | Inr response \<Rightarrow>
          if status_code response = 200 then
            (case json_body response of
               Inl e \<Rightarrow> Inl e
             | Inr j \<Rightarrow> py_getitem j ''token'')
          else
            (case raise_for_status response of
               Inl e \<Rightarrow> Inl e
             | Inr u \<Rightarrow> Inr PNone))"

definition Auth_get_investorid ::
  "('f request \<Rightarrow> py_error + 'f response) \<Rightarrow> 'f pyval \<Rightarrow> py_error + 'f pyval" where
  "Auth_get_investorid http token =
     (case http \<lparr>meth = ''GET'',
                  url = ''https://services.entrade.com.vn/dnse-user-service/api/me'',
                  bearer = Some token,
                  body = None\<rparr> of
        Inl e \<Rightarrow> Inl e
      | Inr response \<Rightarrow>
          if status_code response = 200 then
            (case json_body response of
               Inl e \<Rightarrow> Inl e
             | Inr investor_data \<Rightarrow> py_getitem investor_data ''investorId'')
          else
            (case raise_for_status response of
               Inl e \<Rightarrow> Inl e
             | Inr u \<Rightarrow> Inr PNone))"

text \<open>\<^verbatim>\<open>Auth.__init__\<close>: the token, then the investor id; the result is the pair.\<close>

definition Auth_init ::
  "('f request \<Rightarrow> py_error + 'f response) \<Rightarrow> 'f pyval \<Rightarrow> 'f pyval
     \<Rightarrow> py_error + ('f pyval \<times> 'f pyval)" where
  "Auth_init http username password' =
     (case Auth_get_token http username password' of
        Inl e \<Rightarrow> Inl e
      | Inr token \<Rightarrow>
     (case Auth_get_investorid http token of
        Inl e \<Rightarrow> Inl e
      | Inr investor_id \<Rightarrow> Inr (token, investor_id)))"

text \<open>
  \<^verbatim>\<open>dnse_auth\<close> of \<^verbatim>\<open>stream.py\<close>: the same request, and no \<^verbatim>\<open>else\<close> branch at all.
\<close>

definition dnse_auth ::
  "('f request \<Rightarrow> py_error + 'f response) \<Rightarrow> 'f pyval \<Rightarrow> 'f pyval \<Rightarrow> py_error + 'f pyval" where
  "dnse_auth http username password' =
     (case http \<lparr>meth = ''POST'',
                  url = ''https://services.entrade.com.vn/dnse-user-service/api/auth'',
                  bearer = None,
                  body = Some (PDict [(PStr ''username'', username),
                                      (PStr ''password'', password')])\<rparr> of
        Inl e \<Rightarrow> Inl e
      | Inr response \<Rightarrow>
          if status_code response = 200 then
            (case json_body response of
               Inl e \<Rightarrow> Inl e
             | Inr j \<Rightarrow> py_getitem j ''token'')
          else Inr PNone)"

definition Config_init ::
  "'f pylib \<Rightarrow> (string \<Rightarrow> py_error + string) \<Rightarrow> ('f request \<Rightarrow> py_error + 'f response)
     \<Rightarrow> string \<Rightarrow> string list \<Rightarrow> py_error + 'f Config" where
  "Config_init L open_read http creds_path topics =
     (case yaml_creds L open_read creds_path of
        Inl e \<Rightarrow> Inl e
      | Inr (usr, pwd) \<Rightarrow>
     (case Auth_init http usr pwd of
        Inl e \<Rightarrow> Inl e
      | Inr (token, investor_id) \<Rightarrow>
          Inr \<lparr>user_name = usr, password = pwd,
               BROKER = ''datafeed-lts.dnse.com.vn'', PORT = 443,
               TOPICS = topics,
               USERNAME = investor_id, PASSWORD = token,
               FIRST_RECONNECT_DELAY = 1, RECONNECT_RATE = 2,
               MAX_RECONNECT_COUNT = 12, MAX_RECONNECT_DELAY = 60\<rparr>))"

section \<open>The entry point: \<^verbatim>\<open>run\<close>\<close>

text \<open>
  The first half of \<^verbatim>\<open>run\<close>: a string is parsed by \<^verbatim>\<open>ast.literal_eval\<close> inside a
  \<^verbatim>\<open>try\<close> whose handler is \<^verbatim>\<open>except (ValueError, SyntaxError)\<close> (the
  \<^verbatim>\<open>ValueError\<close> raised for a value that is no list is raised inside it, so it is
  caught and raised again under the handler's message); then every element must be a
  string. The result is \<^verbatim>\<open>topics_tuple\<close>.
\<close>

definition run_topics :: "'f pylib \<Rightarrow> 'f pyval \<Rightarrow> py_error + 'f pyval list" where
  "run_topics L topics =
     (case (case topics of
              PStr s \<Rightarrow>
                (case (case literal_eval L s of
                         Inl e \<Rightarrow> Inl e
                       | Inr v \<Rightarrow>
                           if \<not> is_list v then
                             Inl (PyErr ValueError ''Topics should be a list of strings.'')
                           else Inr v) of
                   Inl e \<Rightarrow>
                     if catches ValueError (exc_class e) \<or> catches SyntaxError (exc_class e) then
                       Inl (PyErr ValueError (''Failed to parse topics: '' @ str_of_error e))
                     else Inl e
                 | Inr v \<Rightarrow> Inr v)
            | _ \<Rightarrow> Inr topics) of
        Inl e \<Rightarrow> Inl e
      | Inr topics1 \<Rightarrow>
     (case py_iter topics1 of
        Inl e \<Rightarrow> Inl e
      | Inr elems \<Rightarrow>
          if \<not> list_all is_str elems then
            Inl (PyErr ValueError ''All topics must be strings.'')
          else Inr elems))"

text \<open>
  The environment of a run: the opening of text files, the user service, the outcome of
  \<^verbatim>\<open>client.connect\<close> (\<open>None\<close> when it returns) and the sink's files. A run either
  raises, after the effects listed, or enters \<^verbatim>\<open>client.loop_forever()\<close> with the
  client in the given state.
\<close>

record 'f env =
  E_open_read :: "string \<Rightarrow> py_error + string"
  E_http :: "'f request \<Rightarrow> py_error + 'f response"
  E_connect :: "py_error option"
  E_sink :: "'f files"

datatype 'f run_result = Raised py_error "'f event list" | Looping "'f state"

definition run :: "'f pylib \<Rightarrow> 'f env \<Rightarrow> string \<Rightarrow> 'f pyval \<Rightarrow> 'f run_result" where
  "run L E creds_path topics =
     (case run_topics L topics of
        Inl e \<Rightarrow> Raised e []
      | Inr elems \<Rightarrow>
          (let topics_tuple = map the_str elems;
               parsed = [Log DEBUG ''Parsed topics: {topics_tuple}'' [PTuple elems]]
           in case Config_init L (E_open_read E) (E_http E) creds_path topics_tuple of
                Inl e \<Rightarrow> Raised e parsed
              | Inr cfg \<Rightarrow>
                  (let my_mqtt_client =
                         \<lparr>config = cfg, FLAG_EXIT = False, trace = parsed, files = E_sink E\<rparr>;
                       connecting = emit [Connect (BROKER cfg) (PORT cfg)] my_mqtt_client
                   in case E_connect E of
                        Some e \<Rightarrow> Raised e (trace connecting)
                      | None \<Rightarrow> Looping (emit [LoopForever] connecting))))"

section \<open>The backoff schedule in the specification's words\<close>

text \<open>
  The delays of \<open>n\<close> successive attempts, starting from \<open>d\<close>: each subsequent delay
  is the previous one multiplied by the rate and clamped to the ceiling.
\<close>

fun backoff_delays :: "int \<Rightarrow> int \<Rightarrow> int \<Rightarrow> nat \<Rightarrow> int list" where
  "backoff_delays d rate ceiling 0 = []"
| "backoff_delays d rate ceiling (Suc n) =
     d # backoff_delays (min (d * rate) ceiling) rate ceiling n"

text \<open>
  The number of attempts a disconnect event makes when \<open>n\<close> attempts remain and the
  next attempt is number \<open>k\<close>: attempts are made until one returns or none remains.
\<close>

fun attempts_made :: "(nat \<Rightarrow> py_error option) \<Rightarrow> nat \<Rightarrow> nat \<Rightarrow> nat" where
  "attempts_made reconnect k 0 = 0"
| "attempts_made reconnect k (Suc n) =
     (case reconnect k of
        None \<Rightarrow> 1
      | Some err \<Rightarrow> Suc (attempts_made reconnect (Suc k) n))"

text \<open>Whether each of the \<open>n\<close> attempts from number \<open>k\<close> on raises.\<close>

fun all_fail :: "(nat \<Rightarrow> py_error option) \<Rightarrow> nat \<Rightarrow> nat \<Rightarrow> bool" where
  "all_fail reconnect k 0 = True"
| "all_fail reconnect k (Suc n) =
     (case reconnect k of
        None \<Rightarrow> False
      | Some err \<Rightarrow> all_fail reconnect (Suc k) n)"

section \<open>An environment for the examples\<close>

text \<open>
  Concrete inputs for the examples further down. Floats are written by what they were
  made from. \<open>example_lib\<close> answers as CPython 3.11 and PyYAML do on the inputs the examples
  use (the payloads, topic strings and credential files spelled out here); what it
  answers elsewhere is never used.
\<close>

datatype flt = FloatOfInt int | FloatOfStr string

text \<open>
  Four payloads: a tick, a tick whose price is \<^verbatim>\<open>null\<close>, an OHLC bar (it has neither
  \<^verbatim>\<open>matchPrice\<close> nor \<^verbatim>\<open>matchQtty\<close>), and a tick with a field that is no column of
  the sink.
\<close>

definition tick_payload :: string where
  "tick_payload = ''{\"symbol\": \"SSI\", \"matchPrice\": \"25.5\", \"matchQtty\": 100}''"

definition null_price_payload :: string where
  "null_price_payload = ''{\"symbol\": \"SSI\", \"matchPrice\": null, \"matchQtty\": 100}''"

definition ohlc_payload :: string where
  "ohlc_payload = ''{\"symbol\": \"VN30F1M\", \"open\": 1290, \"close\": 1291}''"

definition extra_field_payload :: string where
  "extra_field_payload =
     ''{\"symbol\": \"SSI\", \"matchPrice\": \"25.5\", \"matchQtty\": 100, \"board\": \"G1\"}''"

definition example_lib :: "flt pylib" where
  "example_lib =
     \<lparr>json_loads = (\<lambda>s.
        if s = tick_payload then
          Inr (PDict [(PStr ''symbol'', PStr ''SSI''), (PStr ''matchPrice'', PStr ''25.5''),
                      (PStr ''matchQtty'', PInt 100)])
        else if s = null_price_payload then
          Inr (PDict [(PStr ''symbol'', PStr ''SSI''), (PStr ''matchPrice'', PNone),
                      (PStr ''matchQtty'', PInt 100)])
        else if s = ohlc_payload then
          Inr (PDict [(PStr ''symbol'', PStr ''VN30F1M''), (PStr ''open'', PInt 1290),
                      (PStr ''close'', PInt 1291)])
        else if s = extra_field_payload then
          Inr (PDict [(PStr ''symbol'', PStr ''SSI''), (PStr ''matchPrice'', PStr ''25.5''),
                      (PStr ''matchQtty'', PInt 100), (PStr ''board'', PStr ''G1'')])
        else Inl (PyErr JSONDecodeError ''Expecting value: line 1 column 1 (char 0)'')),
      str_to_float = (\<lambda>s. if s = ''25.5'' then Some (FloatOfStr ''25.5'') else None),
      int_to_float = (\<lambda>i. if abs i < 2 ^ 1024 - 2 ^ 970 then Some (FloatOfInt i) else None),
      literal_eval = (\<lambda>s.
        if s = ''['a', 'b']'' then Inr (PList [PStr ''a'', PStr ''b''])
        else if s = ''{[]: 1}'' then Inl (PyErr TypeError (''unhashable type: '' @ quote ''list''))
        else Inl (PyErr SyntaxError ''invalid syntax (<unknown>, line 1)'')),
      safe_load = (\<lambda>f.
        if f = ''{usr: alice, pwd: secret}'' then
          Inr (PDict [(PStr ''usr'', PStr ''alice''), (PStr ''pwd'', PStr ''secret'')])
        else Inl (PyErr YAMLError ''while parsing a flow mapping''))\<rparr>"

definition example_config :: "flt Config" where
  "example_config =
     \<lparr>user_name = PStr ''alice'', password = PStr ''secret'',
      BROKER = ''datafeed-lts.dnse.com.vn'', PORT = 443,
      TOPICS = [''plaintext/quotes/derivative/OHLC/1/VN30F1M'', ''plaintext/quotes/stock/tick/+''],
      USERNAME = PStr ''0001000001'', PASSWORD = PStr ''token'',
      FIRST_RECONNECT_DELAY = 1, RECONNECT_RATE = 2,
      MAX_RECONNECT_COUNT = 12, MAX_RECONNECT_DELAY = 60\<rparr>"

text \<open>A sink whose files open and take every line.\<close>

definition working_sink :: "flt sink_io" where
  "working_sink = \<lparr>open_append = (\<lambda>filename. None), write_line = (\<lambda>filename line. None)\<rparr>"

text \<open>A client that has done nothing yet, with no sink file on disk.\<close>

definition example_client :: "flt state" where
  "example_client =
     \<lparr>config = example_config, FLAG_EXIT = False, trace = [], files = (\<lambda>f. None)\<rparr>"

text \<open>
  A file system that holds the credentials file \<^verbatim>\<open>creds.yaml\<close>, has a directory
  \<^verbatim>\<open>/tmp\<close> and nothing else.
\<close>

definition example_open :: "string \<Rightarrow> py_error + string" where
  "example_open path =
     (if path = ''creds.yaml'' then Inr ''{usr: alice, pwd: secret}''
      else if path = ''/tmp'' then
        Inl (PyErr IsADirectoryError (''[Errno 21] Is a directory: '' @ quote path))
      else Inl (PyErr FileNotFoundError (''[Errno 2] No such file or directory: '' @ quote path)))"

text \<open>A user service that answers every request with the given status and an empty body.\<close>

definition answering :: "int \<Rightarrow> flt request \<Rightarrow> py_error + flt response" where
  "answering status req =
     Inr \<lparr>status_code = status,
          json_body = Inl (PyErr JSONDecodeError ''Expecting value: line 1 column 1 (char 0)'')\<rparr>"

section \<open>Properties of the reconnection loop\<close>

text \<open>The projections of a trace distribute over appending.\<close>

lemma sleeps_append: "sleeps (xs @ ys) = sleeps xs @ sleeps ys"
  by (induction xs rule: sleeps.induct) auto

lemma reconnects_append: "reconnects (xs @ ys) = reconnects xs + reconnects ys"
  by (induction xs rule: reconnects.induct) auto

lemma subscribes_append: "subscribes (xs @ ys) = subscribes xs @ subscribes ys"
  by (induction xs rule: subscribes.induct) auto

lemma logs_append: "logs l (xs @ ys) = logs l xs @ logs l ys"
  by (induction l xs rule: logs.induct) auto

lemma emit_fields:
  "config (emit es st) = config st"
  "FLAG_EXIT (emit es st) = FLAG_EXIT st"
  "files (emit es st) = files st"
  "trace (emit es st) = trace st @ es"
  by (simp_all add: emit_def)

text \<open>
  The loop, entered with attempt counter \<open>c\<close> and delay \<open>d\<close>, makes
  \<open>attempts_made\<close> attempts, sleeps the backoff schedule from \<open>d\<close> on, and sets the
  flag exactly when all remaining attempts fail. By induction on the loop's own recursion.
\<close>

lemma reconnect_loop_schedule:
  "0 \<le> c \<Longrightarrow> 0 \<le> d \<Longrightarrow> 0 \<le> RECONNECT_RATE (config st) \<Longrightarrow> 0 \<le> MAX_RECONNECT_DELAY (config st) \<Longrightarrow>
   \<exists>st'. reconnect_loop r c d st = (Inr (), st') \<and>
     config st' = config st \<and> files st' = files st \<and>
     sleeps (trace st') = sleeps (trace st) @
       backoff_delays d (RECONNECT_RATE (config st)) (MAX_RECONNECT_DELAY (config st))
         (attempts_made r (nat c) (nat (MAX_RECONNECT_COUNT (config st) - c))) \<and>
     reconnects (trace st') = reconnects (trace st) +
         attempts_made r (nat c) (nat (MAX_RECONNECT_COUNT (config st) - c)) \<and>
     subscribes (trace st') = subscribes (trace st) \<and>
     FLAG_EXIT st' = (FLAG_EXIT st \<or> all_fail r (nat c) (nat (MAX_RECONNECT_COUNT (config st) - c)))"
proof (induction r c d st rule: reconnect_loop.induct)
  case (1 r c d st)
  let ?M = "MAX_RECONNECT_COUNT (config st)"
  show ?case
  proof (cases "c < ?M")
    case False
    then have "nat (?M - c) = 0" by simp
    with False show ?thesis
      by (simp add: reconnect_loop.simps [of r c d st] emit_fields sleeps_append reconnects_append subscribes_append)
  next
    case True
    with "1.prems" have n: "nat (?M - c) = Suc (nat (?M - (c + 1)))" and k: "nat (c + 1) = Suc (nat c)"
      by simp_all
    show ?thesis
    proof (cases "r (nat c)")
      case None
      with True "1.prems" n show ?thesis
        by (simp add: reconnect_loop.simps [of r c d st] emit_fields sleeps_append reconnects_append subscribes_append Let_def)
    next
      case (Some err)
      let ?d' = "min (d * RECONNECT_RATE (config st)) (MAX_RECONNECT_DELAY (config st))"
      let ?st' = "emit [Log ERROR ''%s. Reconnect failed. Retrying...'' [PStr (str_of_error err)]]
                   (emit [Sleep d, Reconnect]
                     (emit [Log INFO ''Reconnecting in %d seconds...'' [PInt d]] st))"
      from "1.prems" have d': "0 \<le> ?d'" by simp
      from "1.prems" have nn: "\<not> d < 0" by simp
      have IH: "\<exists>st'. reconnect_loop r (c + 1) ?d' ?st' = (Inr (), st') \<and>
         config st' = config ?st' \<and> files st' = files ?st' \<and>
         sleeps (trace st') = sleeps (trace ?st') @
           backoff_delays ?d' (RECONNECT_RATE (config ?st')) (MAX_RECONNECT_DELAY (config ?st'))
             (attempts_made r (nat (c + 1)) (nat (MAX_RECONNECT_COUNT (config ?st') - (c + 1)))) \<and>
         reconnects (trace st') = reconnects (trace ?st') +
             attempts_made r (nat (c + 1)) (nat (MAX_RECONNECT_COUNT (config ?st') - (c + 1))) \<and>
         subscribes (trace st') = subscribes (trace ?st') \<and>
         FLAG_EXIT st' = (FLAG_EXIT ?st' \<or> all_fail r (nat (c + 1)) (nat (MAX_RECONNECT_COUNT (config ?st') - (c + 1))))"
        using "1.IH" [OF True refl nn refl Some] "1.prems" d' by (simp add: emit_fields)
      then obtain st' where st': "reconnect_loop r (c + 1) ?d' ?st' = (Inr (), st')"
        and rest: "config st' = config st" "files st' = files st"
         "sleeps (trace st') = sleeps (trace ?st') @
           backoff_delays ?d' (RECONNECT_RATE (config st)) (MAX_RECONNECT_DELAY (config st))
             (attempts_made r (nat (c + 1)) (nat (?M - (c + 1))))"
         "reconnects (trace st') = reconnects (trace ?st') +
             attempts_made r (nat (c + 1)) (nat (?M - (c + 1)))"
         "subscribes (trace st') = subscribes (trace ?st')"
         "FLAG_EXIT st' = (FLAG_EXIT st \<or> all_fail r (nat (c + 1)) (nat (?M - (c + 1))))"
        by (auto simp: emit_fields)
      have "reconnect_loop r c d st = (Inr (), st')"
        using True nn Some st' by (simp add: reconnect_loop.simps [of r c d st] Let_def)
      with rest Some show ?thesis
        by (simp add: n k emit_fields sleeps_append reconnects_append subscribes_append)
    qed
  qed
qed


lemma all_fail_iff: "all_fail r k n = (\<forall>i<n. r (k + i) \<noteq> None)"
proof (induction n arbitrary: k)
  case 0
  show ?case by simp
next
  case (Suc n)
  show ?case
  proof (cases "r k")
    case None
    then have "\<exists>i<Suc n. r (k + i) = None" by (intro exI [of _ 0]) simp
    with None show ?thesis by auto
  next
    case (Some err)
    have "(\<forall>i<Suc n. r (k + i) \<noteq> None) = (\<forall>i<n. r (Suc k + i) \<noteq> None)"
    proof
      assume a: "\<forall>i<Suc n. r (k + i) \<noteq> None"
      show "\<forall>i<n. r (Suc k + i) \<noteq> None"
      proof (intro allI impI)
        fix i assume "i < n"
        then have "r (k + Suc i) \<noteq> None" using a by (metis Suc_less_eq)
        then show "r (Suc k + i) \<noteq> None" by simp
      qed
    next
      assume a: "\<forall>i<n. r (Suc k + i) \<noteq> None"
      show "\<forall>i<Suc n. r (k + i) \<noteq> None"
      proof (intro allI impI)
        fix i assume i: "i < Suc n"
        show "r (k + i) \<noteq> None"
        proof (cases i)
          case 0
          with Some show ?thesis by simp
        next
          case (Suc j)
          with i a have "r (Suc k + j) \<noteq> None" by simp
          with Suc show ?thesis by simp
        qed
      qed
    qed
    with Some Suc.IH [of "Suc k"] show ?thesis by simp
  qed
qed

lemma attempts_made_all_fail: "all_fail r k n \<Longrightarrow> attempts_made r k n = n"
  by (induction n arbitrary: k) (auto split: option.splits)

lemma on_disconnect_schedule:
  assumes "0 \<le> FIRST_RECONNECT_DELAY (config st)" "0 \<le> RECONNECT_RATE (config st)"
    "0 \<le> MAX_RECONNECT_DELAY (config st)"
  shows "\<exists>st'. on_disconnect r rc st = (Inr (), st') \<and>
     config st' = config st \<and> files st' = files st \<and>
     sleeps (trace st') = sleeps (trace st) @
       backoff_delays (FIRST_RECONNECT_DELAY (config st)) (RECONNECT_RATE (config st))
         (MAX_RECONNECT_DELAY (config st))
         (attempts_made r 0 (nat (MAX_RECONNECT_COUNT (config st)))) \<and>
     reconnects (trace st') = reconnects (trace st) +
         attempts_made r 0 (nat (MAX_RECONNECT_COUNT (config st))) \<and>
     subscribes (trace st') = subscribes (trace st) \<and>
     FLAG_EXIT st' = (FLAG_EXIT st \<or> all_fail r 0 (nat (MAX_RECONNECT_COUNT (config st))))"
  using reconnect_loop_schedule [of 0 "FIRST_RECONNECT_DELAY (config st)"
      "emit [Log INFO ''Disconnected with result code: %s'' [PInt rc]] st" r] assms
  by (simp add: on_disconnect_def emit_fields sleeps_append reconnects_append subscribes_append)

text \<open>
  Every configuration \<^verbatim>\<open>Config.__init__\<close> builds, and so every client that \<^verbatim>\<open>run\<close>
  starts, has the four reconnect constants 1, 2, 60 and 12.
\<close>

lemma Config_init_defaults:
  assumes "Config_init L open_read http creds_path topics = Inr cfg"
  shows "FIRST_RECONNECT_DELAY cfg = 1 \<and> RECONNECT_RATE cfg = 2 \<and>
     MAX_RECONNECT_DELAY cfg = 60 \<and> MAX_RECONNECT_COUNT cfg = 12 \<and> TOPICS cfg = topics"
  using assms by (auto simp: Config_init_def split: sum.splits prod.splits)

lemma run_Looping_defaults:
  assumes "run L E creds_path topics = Looping st"
  shows "FIRST_RECONNECT_DELAY (config st) = 1 \<and> RECONNECT_RATE (config st) = 2 \<and>
     MAX_RECONNECT_DELAY (config st) = 60 \<and> MAX_RECONNECT_COUNT (config st) = 12 \<and>
     \<not> FLAG_EXIT st"
  using assms
  by (auto simp: run_def Let_def emit_fields split: sum.splits option.splits
      dest: Config_init_defaults)

text \<open>
  Claim C1. With the default configuration (initial delay 1, rate 2, ceiling 60, at most
  12 attempts) the disconnect handler returns normally; if every one of its reconnect
  attempts raises, it has slept the delays 1, 2, 4, 8, 16, 32, 60, 60, 60, 60, 60, 60, has
  made 12 attempts and has set \<open>FLAG_EXIT\<close>; if some attempt among the 12 returns, the
  flag is left as it was. The handler ends by returning: the flag is all it sets.
\<close>

theorem on_disconnect_default_schedule:
  assumes "FIRST_RECONNECT_DELAY (config st) = 1" "RECONNECT_RATE (config st) = 2"
    "MAX_RECONNECT_DELAY (config st) = 60" "MAX_RECONNECT_COUNT (config st) = 12"
  shows "\<exists>st'. on_disconnect reconnect rc st = (Inr (), st') \<and>
     ((\<forall>k<12. reconnect k \<noteq> None) \<longrightarrow>
        sleeps (trace st') = sleeps (trace st) @ [1, 2, 4, 8, 16, 32, 60, 60, 60, 60, 60, 60] \<and>
        reconnects (trace st') = reconnects (trace st) + 12 \<and>
        FLAG_EXIT st') \<and>
     ((\<exists>k<12. reconnect k = None) \<longrightarrow> FLAG_EXIT st' = FLAG_EXIT st)"
proof -
  have delays: "backoff_delays 1 2 60 12 = [1, 2, 4, 8, 16, 32, 60, 60, 60, 60, 60, 60]"
    by (simp add: eval_nat_numeral)
  obtain st' where run: "on_disconnect reconnect rc st = (Inr (), st')"
    and sl: "sleeps (trace st') = sleeps (trace st) @
               backoff_delays 1 2 60 (attempts_made reconnect 0 12)"
    and rc: "reconnects (trace st') = reconnects (trace st) + attempts_made reconnect 0 12"
    and fl: "FLAG_EXIT st' = (FLAG_EXIT st \<or> all_fail reconnect 0 12)"
    using on_disconnect_schedule [of st reconnect rc] assms by auto
  have "sleeps (trace st') = sleeps (trace st) @ [1, 2, 4, 8, 16, 32, 60, 60, 60, 60, 60, 60] \<and>
        reconnects (trace st') = reconnects (trace st) + 12 \<and> FLAG_EXIT st'"
    if "\<forall>k<12. reconnect k \<noteq> None"
  proof -
    from that have af: "all_fail reconnect 0 12" by (simp add: all_fail_iff)
    then have "attempts_made reconnect 0 12 = 12" by (rule attempts_made_all_fail)
    with sl rc fl af delays show ?thesis by simp
  qed
  moreover have "FLAG_EXIT st' = FLAG_EXIT st" if "\<exists>k<12. reconnect k = None"
  proof -
    from that have "\<not> all_fail reconnect 0 12" by (simp add: all_fail_iff)
    with fl show ?thesis by simp
  qed
  ultimately show ?thesis using run by blast
qed

text \<open>
  The defaults, on a client that has done nothing yet, with a broker that refuses every
  reconnection.
\<close>

theorem on_disconnect_default_schedule_example:
  "fst (on_disconnect (\<lambda>k. Some (PyErr ConnectionError ''Connection refused'')) 7 example_client)
     = Inr () \<and>
   sleeps (trace (snd (on_disconnect (\<lambda>k. Some (PyErr ConnectionError ''Connection refused''))
      7 example_client))) = [1, 2, 4, 8, 16, 32, 60, 60, 60, 60, 60, 60] \<and>
   FLAG_EXIT (snd (on_disconnect (\<lambda>k. Some (PyErr ConnectionError ''Connection refused''))
      7 example_client))"
  using on_disconnect_default_schedule [of example_client
      "\<lambda>k. Some (PyErr ConnectionError ''Connection refused'')" 7]
  by (auto simp: example_client_def example_config_def)

text \<open>
  Claim C6. Whatever an earlier disconnect event did to the client (in particular when
  its loop reconnected on some attempt), the handler of the next disconnect event
  starts from attempt 0 and from the configured initial delay: it makes the attempts
  numbered from 0, up to the full \<open>MAX_RECONNECT_COUNT\<close>, and sleeps the backoff
  schedule that starts at \<open>FIRST_RECONNECT_DELAY\<close>. Nothing of the earlier count or
  delay is carried over. (The three bounds say that no delay is negative.)
\<close>

theorem on_disconnect_starts_afresh:
  assumes "0 \<le> FIRST_RECONNECT_DELAY (config st)" "0 \<le> RECONNECT_RATE (config st)"
    "0 \<le> MAX_RECONNECT_DELAY (config st)"
    and "on_disconnect reconnect1 rc1 st = (res1, st1)"
  shows "\<exists>st2. on_disconnect reconnect2 rc2 st1 = (Inr (), st2) \<and>
     sleeps (trace st2) = sleeps (trace st1) @
       backoff_delays (FIRST_RECONNECT_DELAY (config st)) (RECONNECT_RATE (config st))
         (MAX_RECONNECT_DELAY (config st))
         (attempts_made reconnect2 0 (nat (MAX_RECONNECT_COUNT (config st)))) \<and>
     reconnects (trace st2) = reconnects (trace st1) +
       attempts_made reconnect2 0 (nat (MAX_RECONNECT_COUNT (config st)))"
proof -
  from on_disconnect_schedule [of st reconnect1 rc1] assms
  have cfg: "config st1 = config st" by auto
  with on_disconnect_schedule [of st1 reconnect2 rc2] assms(1-3)
  show ?thesis by auto
qed

text \<open>
  Two disconnect events in a row, each reconnecting on its fourth try: the second one
  sleeps 1, 2, 4, 8 again.
\<close>

theorem on_disconnect_starts_afresh_example:
  "sleeps (trace (snd (on_disconnect (\<lambda>k. if k < 3 then Some (PyErr ConnectionError ''timed out'') else None) 7
      (snd (on_disconnect (\<lambda>k. if k < 3 then Some (PyErr ConnectionError ''timed out'') else None) 7
         example_client))))) = [1, 2, 4, 8, 1, 2, 4, 8]"
proof -
  let ?r = "\<lambda>k::nat. if k < 3 then Some (PyErr ConnectionError ''timed out'') else None"
  let ?st1 = "snd (on_disconnect ?r 7 example_client)"
  have n: "attempts_made ?r 0 12 = 4" by (simp add: eval_nat_numeral)
  have d: "backoff_delays 1 2 60 4 = [1, 2, 4, 8]" by (simp add: eval_nat_numeral)
  have first: "sleeps (trace ?st1) = [1, 2, 4, 8]"
    using on_disconnect_schedule [of example_client ?r 7] n d
    by (auto simp: example_client_def example_config_def)
  have pair: "on_disconnect ?r 7 example_client = (fst (on_disconnect ?r 7 example_client), ?st1)"
    by simp
  from on_disconnect_starts_afresh [of example_client ?r 7 _ ?st1 ?r 7, OF _ _ _ pair]
  show ?thesis using first n d
    by (auto simp: example_client_def example_config_def)
qed

section \<open>Properties of \<^verbatim>\<open>on_connect\<close>\<close>

lemma on_connect_effects:
  "\<exists>st'. on_connect is_connected rc st = (Inr (), st') \<and>
     subscribes (trace st') = subscribes (trace st) @
       (if rc = 0 \<and> is_connected then [map (\<lambda>topic. (topic, 2)) (TOPICS (config st))] else []) \<and>
     logs ERROR (trace st') = logs ERROR (trace st) @
       (if rc = 0 \<and> is_connected then [] else [''Failed to connect, return code {rc}''])"
  by (simp add: on_connect_def Let_def emit_fields subscribes_append logs_append)

lemma stream_on_connect_effects:
  "\<exists>st'. stream_on_connect rc st = (Inr (), st') \<and>
     subscribes (trace st') = subscribes (trace st) @
       (if rc = 0 then [map (\<lambda>topic. (topic, 2)) stream_TOPICS] else []) \<and>
     logs ERROR (trace st') = logs ERROR (trace st) @
       (if rc = 0 then [] else [''Failed to connect, return code {rc}''])"
  by (simp add: stream_on_connect_def Let_def emit_fields subscribes_append logs_append)

text \<open>
  Claim C5, amended. In \<^verbatim>\<open>test_cli.py\<close> the callback issues one subscribe call, covering
  all configured topics at QoS 2 each, exactly when the acknowledgment code is 0 and the
  client reports that it is connected; in every other case (a non-zero code, or a client
  that is not connected) it logs the failure at error level and issues no subscribe
  call. In \<^verbatim>\<open>stream.py\<close> the code alone decides.
\<close>

theorem on_connect_subscribes_when_connected:
  "(\<exists>st'. on_connect is_connected rc st = (Inr (), st') \<and>
     subscribes (trace st') = subscribes (trace st) @
       (if rc = 0 \<and> is_connected then [map (\<lambda>topic. (topic, 2)) (TOPICS (config st))] else []) \<and>
     logs ERROR (trace st') = logs ERROR (trace st) @
       (if rc = 0 \<and> is_connected then [] else [''Failed to connect, return code {rc}''])) \<and>
   (\<exists>st'. stream_on_connect rc st = (Inr (), st') \<and>
     subscribes (trace st') = subscribes (trace st) @
       (if rc = 0 then [map (\<lambda>topic. (topic, 2)) stream_TOPICS] else []) \<and>
     logs ERROR (trace st') = logs ERROR (trace st) @
       (if rc = 0 then [] else [''Failed to connect, return code {rc}'']))"
  using on_connect_effects [of is_connected rc st] stream_on_connect_effects [of rc st]
  by blast

text \<open>
  A connected client of \<^verbatim>\<open>test_cli.py\<close>: acknowledged with code 0 it subscribes to its two
  topics at QoS 2; acknowledged with code 5 it logs the failure and does not subscribe.
\<close>

theorem on_connect_subscribes_when_connected_example:
  "subscribes (trace (snd (on_connect True 0 example_client))) =
     [[(''plaintext/quotes/derivative/OHLC/1/VN30F1M'', 2), (''plaintext/quotes/stock/tick/+'', 2)]] \<and>
   logs ERROR (trace (snd (on_connect True 0 example_client))) = [] \<and>
   subscribes (trace (snd (on_connect True 5 example_client))) = [] \<and>
   logs ERROR (trace (snd (on_connect True 5 example_client))) =
     [''Failed to connect, return code {rc}'']"
  using on_connect_subscribes_when_connected [of True 0 example_client]
    on_connect_subscribes_when_connected [of True 5 example_client]
  by (auto simp: example_client_def example_config_def)

text \<open>
  Claim C5 as it stands fails in \<^verbatim>\<open>test_cli.py\<close>: with the success code 0 and a client
  that reports not being connected, no subscribe call is issued and the failure is logged.
\<close>

theorem on_connect_unconnected_counterexample:
  "fst (on_connect False 0 example_client) = Inr () \<and>
   subscribes (trace (snd (on_connect False 0 example_client))) = [] \<and>
   logs ERROR (trace (snd (on_connect False 0 example_client))) =
     [''Failed to connect, return code {rc}'']"
  by (simp add: on_connect_def emit_fields example_client_def)

section \<open>Properties of the sink\<close>

text \<open>What \<^verbatim>\<open>DictWriter\<close> makes of a dictionary.\<close>

lemma dict_to_list_PDict:
  "dict_to_list (PDict kvs) =
     (if list_all (\<lambda>k. k \<in> set (map PStr fieldnames)) (map fst kvs) then
        Inr (map (\<lambda>key. case map_of kvs (PStr key) of Some v \<Rightarrow> v | None \<Rightarrow> PStr []) fieldnames)
      else Inl (PyErr ValueError ''dict contains fields not in fieldnames: {wrong_fields}''))"
  by (auto simp: dict_to_list_def Let_def filter_empty_conv list_all_iff)

text \<open>A file that cannot be opened: the exception of \<^verbatim>\<open>open\<close>, and nothing changes.\<close>

lemma append_tick_to_csv_unopened:
  "open_append S filename = Some e \<Longrightarrow> append_tick_to_csv S tick_data filename fs = (Inl e, fs)"
  by (simp add: append_tick_to_csv_def)

text \<open>
  A file that opens and takes the header: the function stops at an unknown key or at a
  row the writer refuses, and appends the row otherwise.
\<close>

lemma append_tick_to_csv_opened:
  assumes "open_append S filename = None"
    and "fs filename = None \<longrightarrow> write_line S filename (Header fieldnames) = None"
  shows "append_tick_to_csv S tick_data filename fs =
     (let headed = (case fs filename of None \<Rightarrow> [Header fieldnames] | Some written \<Rightarrow> written)
      in case dict_to_list tick_data of
           Inl e \<Rightarrow> (Inl e, fs(filename \<mapsto> headed))
         | Inr cells \<Rightarrow>
             (case write_line S filename (Row cells) of
                Some e \<Rightarrow> (Inl e, fs(filename \<mapsto> headed))
              | None \<Rightarrow> (Inr (), fs(filename \<mapsto> headed @ [Row cells]))))"
  using assms by (auto simp: append_tick_to_csv_def Let_def split: option.splits sum.splits)




text \<open>
  A sequence of appends to a file that did not exist, in a sink that opens the file and
  takes the header: the header once, in front, then the rows of the records in their
  order, a record that raises leaving no row.
\<close>

lemma append_tick_to_csv_existing:
  assumes "open_append S filename = None" "fs filename = Some written"
  shows "snd (append_tick_to_csv S t filename fs) filename =
     Some (written @
       (case dict_to_list t of
          Inl e \<Rightarrow> []
        | Inr cells \<Rightarrow> (case write_line S filename (Row cells) of None \<Rightarrow> [Row cells] | Some e \<Rightarrow> [])))"
  using assms
  by (simp add: append_tick_to_csv_opened Let_def split: sum.splits option.splits)

lemma append_tick_to_csv_missing:
  assumes "open_append S filename = None" "write_line S filename (Header fieldnames) = None"
    "fs filename = None"
  shows "snd (append_tick_to_csv S t filename fs) filename =
     Some (Header fieldnames #
       (case dict_to_list t of
          Inl e \<Rightarrow> []
        | Inr cells \<Rightarrow> (case write_line S filename (Row cells) of None \<Rightarrow> [Row cells] | Some e \<Rightarrow> [])))"
  using assms
  by (simp add: append_tick_to_csv_opened Let_def split: sum.splits option.splits)

lemma append_ticks_existing:
  assumes "open_append S filename = None"
  shows "fs filename = Some written \<Longrightarrow>
   foldl (\<lambda>fs' t. snd (append_tick_to_csv S t filename fs')) fs ts filename =
     Some (written @
       concat (map (\<lambda>t. case dict_to_list t of
                           Inl e \<Rightarrow> []
                         | Inr cells \<Rightarrow>
                             (case write_line S filename (Row cells) of
                                None \<Rightarrow> [Row cells] | Some e \<Rightarrow> [])) ts))"
proof (induction ts arbitrary: fs written)
  case Nil
  then show ?case by simp
next
  case (Cons t ts)
  let ?rows = "case dict_to_list t of
      Inl e \<Rightarrow> []
    | Inr cells \<Rightarrow> (case write_line S filename (Row cells) of None \<Rightarrow> [Row cells] | Some e \<Rightarrow> [])"
  from assms Cons.prems have "snd (append_tick_to_csv S t filename fs) filename =
      Some (written @ ?rows)"
    by (rule append_tick_to_csv_existing)
  with Cons.IH [of "snd (append_tick_to_csv S t filename fs)" "written @ ?rows"]
  show ?case by simp
qed

lemma append_ticks_header_once:
  assumes "open_append S filename = None" "write_line S filename (Header fieldnames) = None"
    "fs filename = None"
  shows "foldl (\<lambda>fs' t. snd (append_tick_to_csv S t filename fs')) fs (t # ts) filename =
     Some (Header fieldnames #
       concat (map (\<lambda>t. case dict_to_list t of
                           Inl e \<Rightarrow> []
                         | Inr cells \<Rightarrow>
                             (case write_line S filename (Row cells) of
                                None \<Rightarrow> [Row cells] | Some e \<Rightarrow> [])) (t # ts)))"
proof -
  let ?rows = "case dict_to_list t of
      Inl e \<Rightarrow> []
    | Inr cells \<Rightarrow> (case write_line S filename (Row cells) of None \<Rightarrow> [Row cells] | Some e \<Rightarrow> [])"
  from assms have "snd (append_tick_to_csv S t filename fs) filename =
      Some (Header fieldnames # ?rows)"
    by (rule append_tick_to_csv_missing)
  with append_ticks_existing [OF assms(1), of "snd (append_tick_to_csv S t filename fs)"
      "Header fieldnames # ?rows" ts]
  show ?thesis by simp
qed

section \<open>Properties of \<^verbatim>\<open>on_message\<close>\<close>

lemma map_of_key_in: "map_of kvs k = Some v \<Longrightarrow> k \<in> fst ` set kvs"
  by (metis domI dom_map_of_conv_image_fst)

lemma on_message_try_accept:
  assumes "map_of kvs (PStr ''matchPrice'') = Some price"
    "map_of kvs (PStr ''matchQtty'') = Some qtty"
    "py_float L price = Inr price_f" "py_float L qtty = Inr qtty_f"
  shows "on_message_try L S (PDict kvs) st =
     (case append_tick_to_csv S
             (PDict (AList.update (PStr ''matchQtty'') qtty_f
                       (AList.update (PStr ''matchPrice'') price_f kvs)))
             ''tick_data.csv'' (files st) of
        (Inl e, fs) \<Rightarrow> (Inl e, st\<lparr>files := fs\<rparr>)
      | (Inr u, fs) \<Rightarrow>
          (Inr (), emit [Log DEBUG ''Received tick data: {payload}''
                       [PDict (AList.update (PStr ''matchQtty'') qtty_f
                                 (AList.update (PStr ''matchPrice'') price_f kvs))]]
                     (st\<lparr>files := fs\<rparr>)))"
  using assms by (simp add: on_message_try_def update_conv')

text \<open>
  Claim C4, amended. For every inbound message whose decoded payload is a dictionary
  with \<^verbatim>\<open>matchPrice\<close> and \<^verbatim>\<open>matchQtty\<close> values that coerce to float and whose keys
  are all columns of the sink, received when the sink file can be opened and the writer
  accepts what is to be written (the header, if the file does not exist yet, and the
  record's row, whose every cell can be encoded): the callback returns normally and
  appends exactly one row to \<^verbatim>\<open>tick_data.csv\<close> (after the header, if the file did not
  exist). The row holds the coerced price and quantity and, under every other column,
  the payload's value for it (the empty string where the payload has none). The
  callback logs the record at debug level and nothing at error level.
\<close>

theorem on_message_appends_row:
  assumes "json_loads L payload_bytes = Inr (PDict kvs)"
    "map_of kvs (PStr ''matchPrice'') = Some price"
    "map_of kvs (PStr ''matchQtty'') = Some qtty"
    "py_float L price = Inr price_f" "py_float L qtty = Inr qtty_f"
    "list_all (\<lambda>k. k \<in> set (map PStr fieldnames)) (map fst kvs)"
    and cells: "cells = map (\<lambda>key. if key = ''matchPrice'' then price_f
                        else if key = ''matchQtty'' then qtty_f
                        else (case map_of kvs (PStr key) of Some v \<Rightarrow> v | None \<Rightarrow> PStr []))
               fieldnames"
    and sink: "open_append S ''tick_data.csv'' = None"
      "files st ''tick_data.csv'' = None \<longrightarrow>
         write_line S ''tick_data.csv'' (Header fieldnames) = None"
      "write_line S ''tick_data.csv'' (Row cells) = None"
  shows "\<exists>st'. on_message L S payload_bytes st = (Inr (), st') \<and>
     files st' = (files st)(''tick_data.csv'' \<mapsto>
       (case files st ''tick_data.csv'' of None \<Rightarrow> [Header fieldnames] | Some written \<Rightarrow> written) @
       [Row cells]) \<and>
     logs ERROR (trace st') = logs ERROR (trace st) \<and>
     logs DEBUG (trace st') = logs DEBUG (trace st) @ [''Received tick data: {payload}'']"
proof -
  let ?kvs' = "AList.update (PStr ''matchQtty'') qtty_f
                 (AList.update (PStr ''matchPrice'') price_f kvs)"
  have keys: "PStr ''matchPrice'' \<in> set (map fst kvs)" "PStr ''matchQtty'' \<in> set (map fst kvs)"
    using assms(2,3) by (auto dest: map_of_key_in)
  have "fst ` set ?kvs' = fst ` set kvs"
    using keys by (auto simp: dom_update)
  with assms(6) have known: "list_all (\<lambda>k. k \<in> set (map PStr fieldnames)) (map fst ?kvs')"
    by (simp add: list_all_iff)
  have "map (\<lambda>key. case map_of ?kvs' (PStr key) of Some v \<Rightarrow> v | None \<Rightarrow> PStr []) fieldnames =
        map (\<lambda>key. if key = ''matchPrice'' then price_f
                        else if key = ''matchQtty'' then qtty_f
                        else (case map_of kvs (PStr key) of Some v \<Rightarrow> v | None \<Rightarrow> PStr []))
               fieldnames"
    by (rule map_cong) (auto simp: update_conv')
  with cells known have row: "dict_to_list (PDict ?kvs') = Inr cells"
    by (simp only: dict_to_list_PDict if_True)
  have app: "append_tick_to_csv S (PDict ?kvs') ''tick_data.csv'' (files st) =
     (Inr (), (files st)(''tick_data.csv'' \<mapsto>
       (case files st ''tick_data.csv'' of None \<Rightarrow> [Header fieldnames] | Some written \<Rightarrow> written) @
       [Row cells]))"
    using append_tick_to_csv_opened [where S = S and filename = "''tick_data.csv''"
        and fs = "files st" and tick_data = "PDict ?kvs'"] sink
    by (simp add: row Let_def)
  let ?st' = "emit [Log DEBUG ''Received tick data: {payload}'' [PDict ?kvs']]
      (st\<lparr>files := (files st)(''tick_data.csv'' \<mapsto>
       (case files st ''tick_data.csv'' of None \<Rightarrow> [Header fieldnames] | Some written \<Rightarrow> written) @
       [Row cells])\<rparr>)"
  have tried: "on_message_try L S (PDict kvs) st = (Inr (), ?st')"
    using on_message_try_accept [OF assms(2-5), of S st] app by simp
  have "on_message L S payload_bytes st = (Inr (), ?st')"
    using assms(1) keys tried by (simp add: on_message_def)
  then show ?thesis
    by (simp add: emit_fields logs_append)
qed

text \<open>
  The same message when the writer refuses the row with an exception of class
  \<^verbatim>\<open>ValueError\<close> (\<^verbatim>\<open>UnicodeEncodeError\<close> for a cell that cannot be encoded): the
  handler catches it, no row is written and one error record is logged.
\<close>

lemma on_message_unwritable_row:
  assumes "json_loads L payload_bytes = Inr (PDict kvs)"
    "map_of kvs (PStr ''matchPrice'') = Some price"
    "map_of kvs (PStr ''matchQtty'') = Some qtty"
    "py_float L price = Inr price_f" "py_float L qtty = Inr qtty_f"
    "list_all (\<lambda>k. k \<in> set (map PStr fieldnames)) (map fst kvs)"
    and cells: "cells = map (\<lambda>key. if key = ''matchPrice'' then price_f
                        else if key = ''matchQtty'' then qtty_f
                        else (case map_of kvs (PStr key) of Some v \<Rightarrow> v | None \<Rightarrow> PStr []))
               fieldnames"
    and sink: "open_append S ''tick_data.csv'' = None"
      "files st ''tick_data.csv'' = None \<longrightarrow>
         write_line S ''tick_data.csv'' (Header fieldnames) = None"
      "write_line S ''tick_data.csv'' (Row cells) = Some e" "catches ValueError (exc_class e)"
  shows "\<exists>st'. on_message L S payload_bytes st = (Inr (), st') \<and>
     files st' = (files st)(''tick_data.csv'' \<mapsto>
       (case files st ''tick_data.csv'' of None \<Rightarrow> [Header fieldnames] | Some written \<Rightarrow> written)) \<and>
     logs ERROR (trace st') = logs ERROR (trace st) @ [''Invalid data format, skipping tick.'']"
proof -
  let ?kvs' = "AList.update (PStr ''matchQtty'') qtty_f
                 (AList.update (PStr ''matchPrice'') price_f kvs)"
  have keys: "PStr ''matchPrice'' \<in> set (map fst kvs)" "PStr ''matchQtty'' \<in> set (map fst kvs)"
    using assms(2,3) by (auto dest: map_of_key_in)
  have "fst ` set ?kvs' = fst ` set kvs"
    using keys by (auto simp: dom_update)
  with assms(6) have known: "list_all (\<lambda>k. k \<in> set (map PStr fieldnames)) (map fst ?kvs')"
    by (simp add: list_all_iff)
  have "map (\<lambda>key. case map_of ?kvs' (PStr key) of Some v \<Rightarrow> v | None \<Rightarrow> PStr []) fieldnames =
        map (\<lambda>key. if key = ''matchPrice'' then price_f
                        else if key = ''matchQtty'' then qtty_f
                        else (case map_of kvs (PStr key) of Some v \<Rightarrow> v | None \<Rightarrow> PStr []))
               fieldnames"
    by (rule map_cong) (auto simp: update_conv')
  with cells known have row: "dict_to_list (PDict ?kvs') = Inr cells"
    by (simp only: dict_to_list_PDict if_True)
  have app: "append_tick_to_csv S (PDict ?kvs') ''tick_data.csv'' (files st) =
     (Inl e, (files st)(''tick_data.csv'' \<mapsto>
       (case files st ''tick_data.csv'' of None \<Rightarrow> [Header fieldnames] | Some written \<Rightarrow> written)))"
    using append_tick_to_csv_opened [where S = S and filename = "''tick_data.csv''"
        and fs = "files st" and tick_data = "PDict ?kvs'"] sink
    by (simp add: row Let_def)
  let ?st' = "st\<lparr>files := (files st)(''tick_data.csv'' \<mapsto>
       (case files st ''tick_data.csv'' of None \<Rightarrow> [Header fieldnames] | Some written \<Rightarrow> written))\<rparr>"
  have tried: "on_message_try L S (PDict kvs) st = (Inl e, ?st')"
    using on_message_try_accept [OF assms(2-5), of S st] app by simp
  have "on_message L S payload_bytes st =
      (Inr (), emit [Log ERROR ''Invalid data format, skipping tick.'' []] ?st')"
    using assms(1) keys tried sink(4) by (simp add: on_message_def)
  then show ?thesis
    by (simp add: emit_fields logs_append)
qed

text \<open>
  And when the sink file cannot be opened: the exception of \<^verbatim>\<open>open\<close>, an
  \<^verbatim>\<open>OSError\<close>, is not of class \<^verbatim>\<open>ValueError\<close> and leaves the callback.
\<close>

lemma on_message_unopened_sink:
  assumes "json_loads L payload_bytes = Inr (PDict kvs)"
    "map_of kvs (PStr ''matchPrice'') = Some price"
    "map_of kvs (PStr ''matchQtty'') = Some qtty"
    "py_float L price = Inr price_f" "py_float L qtty = Inr qtty_f"
    and "open_append S ''tick_data.csv'' = Some e" "\<not> catches ValueError (exc_class e)"
  shows "on_message L S payload_bytes st = (Inl e, st)"
proof -
  have keys: "PStr ''matchPrice'' \<in> set (map fst kvs)" "PStr ''matchQtty'' \<in> set (map fst kvs)"
    using assms(2,3) by (auto dest: map_of_key_in)
  have "on_message_try L S (PDict kvs) st = (Inl e, st)"
    using on_message_try_accept [OF assms(2-5), of S st] assms(6)
    by (simp add: append_tick_to_csv_unopened)
  with assms(1,7) keys show ?thesis by (simp add: on_message_def)
qed

text \<open>The example library on the example payloads.\<close>

lemma example_payloads_distinct:
  "tick_payload \<noteq> null_price_payload" "tick_payload \<noteq> ohlc_payload"
  "tick_payload \<noteq> extra_field_payload" "null_price_payload \<noteq> ohlc_payload"
  "null_price_payload \<noteq> extra_field_payload" "ohlc_payload \<noteq> extra_field_payload"
  "null_price_payload \<noteq> tick_payload" "ohlc_payload \<noteq> tick_payload"
  "extra_field_payload \<noteq> tick_payload" "ohlc_payload \<noteq> null_price_payload"
  "extra_field_payload \<noteq> null_price_payload" "extra_field_payload \<noteq> ohlc_payload"
  by (simp_all add: tick_payload_def null_price_payload_def ohlc_payload_def
      extra_field_payload_def)

lemma example_json_loads:
  "json_loads example_lib tick_payload =
     Inr (PDict [(PStr ''symbol'', PStr ''SSI''), (PStr ''matchPrice'', PStr ''25.5''),
                 (PStr ''matchQtty'', PInt 100)])"
  "json_loads example_lib null_price_payload =
     Inr (PDict [(PStr ''symbol'', PStr ''SSI''), (PStr ''matchPrice'', PNone),
                 (PStr ''matchQtty'', PInt 100)])"
  "json_loads example_lib ohlc_payload =
     Inr (PDict [(PStr ''symbol'', PStr ''VN30F1M''), (PStr ''open'', PInt 1290),
                 (PStr ''close'', PInt 1291)])"
  "json_loads example_lib extra_field_payload =
     Inr (PDict [(PStr ''symbol'', PStr ''SSI''), (PStr ''matchPrice'', PStr ''25.5''),
                 (PStr ''matchQtty'', PInt 100), (PStr ''board'', PStr ''G1'')])"
  by (simp_all add: example_lib_def example_payloads_distinct)

lemma example_conversions:
  "str_to_float example_lib ''25.5'' = Some (FloatOfStr ''25.5'')"
  "int_to_float example_lib 100 = Some (FloatOfInt 100)"
  by (simp_all add: example_lib_def)

lemma example_floats:
  "py_float example_lib (PStr ''25.5'') = Inr (PFloat (FloatOfStr ''25.5''))"
  "py_float example_lib (PInt 100) = Inr (PFloat (FloatOfInt 100))"
  by (simp_all add: example_lib_def)

text \<open>
  The tick of the examples, received by a client with no sink file yet and a working
  sink.
\<close>

theorem on_message_appends_row_example:
  "fst (on_message example_lib working_sink tick_payload example_client) = Inr () \<and>
   files (snd (on_message example_lib working_sink tick_payload example_client)) ''tick_data.csv'' =
     Some [Header fieldnames,
           Row [PStr ''SSI'', PFloat (FloatOfStr ''25.5''), PFloat (FloatOfInt 100),
                PStr [], PStr [], PStr [], PStr [], PStr [], PStr [], PStr [], PStr [],
                PStr [], PStr []]]"
  using on_message_appends_row [OF example_json_loads(1) _ _ example_floats _ refl,
      where S = working_sink and st = example_client]
  by (auto simp: example_client_def fieldnames_def working_sink_def)

text \<open>
  Claim C4 as it stands fails, even with a working sink: a tick with numeric price and
  quantity and one more field, \<^verbatim>\<open>board\<close>, that is no column of the sink.
  \<^verbatim>\<open>writerow\<close> raises \<^verbatim>\<open>ValueError\<close>, the handler logs it, and no row is written
  (the file, created on opening, holds the header alone).
\<close>

theorem on_message_unknown_field_counterexample:
  "fst (on_message example_lib working_sink extra_field_payload example_client) = Inr () \<and>
   files (snd (on_message example_lib working_sink extra_field_payload example_client)) ''tick_data.csv'' =
     Some [Header fieldnames] \<and>
   logs ERROR (trace (snd (on_message example_lib working_sink extra_field_payload example_client))) =
     [''Invalid data format, skipping tick.'']"
  by (simp add: on_message_def on_message_try_def example_json_loads example_conversions
      append_tick_to_csv_def dict_to_list_def fieldnames_def catches_def emit_fields
      example_client_def working_sink_def Let_def)

text \<open>The sink changes only after both fields were read and coerced.\<close>

lemma on_message_try_writes:
  assumes "files (snd (on_message_try L S payload st)) \<noteq> files st"
  shows "\<exists>kvs price qtty price_f qtty_f. payload = PDict kvs \<and>
     map_of kvs (PStr ''matchPrice'') = Some price \<and>
     map_of kvs (PStr ''matchQtty'') = Some qtty \<and>
     py_float L price = Inr price_f \<and> py_float L qtty = Inr qtty_f"
proof (cases payload)
  case (PDict kvs)
  with assms show ?thesis
    by (auto simp: on_message_try_def update_conv' split: sum.splits option.splits)
qed (use assms in \<open>simp_all add: on_message_try_def\<close>)

lemma on_message_writes:
  assumes "files (snd (on_message L S payload_bytes st)) \<noteq> files st"
  shows "\<exists>payload. json_loads L payload_bytes = Inr payload \<and>
     files (snd (on_message_try L S payload st)) \<noteq> files st"
  using assms
  by (auto simp: on_message_def emit_fields split: sum.splits prod.splits if_splits)

lemma on_message_missing_field:
  assumes "json_loads L payload_bytes = Inr (PDict kvs)"
    "map_of kvs (PStr ''matchPrice'') = None \<or> map_of kvs (PStr ''matchQtty'') = None"
  shows "on_message L S payload_bytes st = (Inr (), st)"
  using assms by (auto simp: on_message_def map_of_eq_None_iff)

text \<open>
  Claim C3, amended. For every inbound message whose decoded payload (a dictionary)
  lacks the \<^verbatim>\<open>matchPrice\<close> field or the \<^verbatim>\<open>matchQtty\<close> field, the callback writes
  nothing to the sink and produces no log entry: it returns leaving the state as it
  was. More generally, the sink changes only if both fields are present and both coerce
  to float.
\<close>

theorem on_message_accepts_only_valid:
  "(json_loads L payload_bytes = Inr (PDict kvs) \<and>
      (map_of kvs (PStr ''matchPrice'') = None \<or> map_of kvs (PStr ''matchQtty'') = None) \<longrightarrow>
    on_message L S payload_bytes st = (Inr (), st)) \<and>
   (files (snd (on_message L S payload_bytes st)) \<noteq> files st \<longrightarrow>
    (\<exists>kvs' price qtty price_f qtty_f.
       json_loads L payload_bytes = Inr (PDict kvs') \<and>
       map_of kvs' (PStr ''matchPrice'') = Some price \<and>
       map_of kvs' (PStr ''matchQtty'') = Some qtty \<and>
       py_float L price = Inr price_f \<and> py_float L qtty = Inr qtty_f))"
proof (intro conjI impI)
  assume "json_loads L payload_bytes = Inr (PDict kvs) \<and>
      (map_of kvs (PStr ''matchPrice'') = None \<or> map_of kvs (PStr ''matchQtty'') = None)"
  then show "on_message L S payload_bytes st = (Inr (), st)"
    using on_message_missing_field by blast
next
  assume "files (snd (on_message L S payload_bytes st)) \<noteq> files st"
  from on_message_writes [OF this] obtain payload
    where "json_loads L payload_bytes = Inr payload"
      "files (snd (on_message_try L S payload st)) \<noteq> files st"
    by blast
  with on_message_try_writes [of L S payload st]
  show "\<exists>kvs' price qtty price_f qtty_f.
       json_loads L payload_bytes = Inr (PDict kvs') \<and>
       map_of kvs' (PStr ''matchPrice'') = Some price \<and>
       map_of kvs' (PStr ''matchQtty'') = Some qtty \<and>
       py_float L price = Inr price_f \<and> py_float L qtty = Inr qtty_f"
    by blast
qed

text \<open>An OHLC bar, which has neither field: the client is left as it was.\<close>

theorem on_message_accepts_only_valid_example:
  "on_message example_lib working_sink ohlc_payload example_client = (Inr (), example_client)"
  using on_message_accepts_only_valid [where L = example_lib and S = working_sink
      and payload_bytes = ohlc_payload and st = example_client and kvs =
      "[(PStr ''symbol'', PStr ''VN30F1M''), (PStr ''open'', PInt 1290), (PStr ''close'', PInt 1291)]"]
  by (simp add: example_json_loads)

text \<open>
  Claim C3 as it stands fails: for the OHLC bar the callback produces no error-level
  log entry at all, where the claim asks for exactly one.
\<close>

theorem on_message_missing_field_counterexample:
  "fst (on_message example_lib working_sink ohlc_payload example_client) = Inr () \<and>
   logs ERROR (trace (snd (on_message example_lib working_sink ohlc_payload example_client))) = [] \<and>
   files (snd (on_message example_lib working_sink ohlc_payload example_client)) ''tick_data.csv'' = None"
  by (simp add: on_message_def example_json_loads example_client_def)

text \<open>
  What leaves the callback: the exception of the decoding step, which stands outside
  the \<^verbatim>\<open>try\<close>, and the \<^verbatim>\<open>TypeError\<close> that \<^verbatim>\<open>float(None)\<close> raises, which the
  handler \<^verbatim>\<open>except ValueError\<close> does not catch.
\<close>

lemma on_message_decode_error:
  "json_loads L payload_bytes = Inl e \<Longrightarrow> on_message L S payload_bytes st = (Inl e, st)"
  by (simp add: on_message_def)

lemma on_message_null_field:
  assumes "json_loads L payload_bytes = Inr (PDict kvs)"
    "map_of kvs (PStr ''matchPrice'') = Some PNone" "PStr ''matchQtty'' \<in> set (map fst kvs)"
  shows "on_message L S payload_bytes st =
     (Inl (PyErr TypeError
        (''float() argument must be a string or a real number, not '' @ quote ''NoneType'')), st)"
  using assms
  by (auto simp: on_message_def on_message_try_def catches_def dest: map_of_key_in)

text \<open>
  Claim C2 does not hold of the code: a payload whose price is \<^verbatim>\<open>null\<close> makes the
  callback raise \<^verbatim>\<open>TypeError\<close>, and bytes that are no JSON make it raise
  \<^verbatim>\<open>JSONDecodeError\<close>; in both cases the exception reaches the transport layer.
\<close>

theorem on_message_exception_escapes:
  "on_message example_lib working_sink null_price_payload example_client =
     (Inl (PyErr TypeError
        (''float() argument must be a string or a real number, not '' @ quote ''NoneType'')),
      example_client) \<and>
   on_message example_lib working_sink ''not json'' example_client =
     (Inl (PyErr JSONDecodeError ''Expecting value: line 1 column 1 (char 0)''), example_client)"
proof
  show "on_message example_lib working_sink null_price_payload example_client =
     (Inl (PyErr TypeError
        (''float() argument must be a string or a real number, not '' @ quote ''NoneType'')),
      example_client)"
    by (rule on_message_null_field [OF example_json_loads(2)]) simp_all
  have "json_loads example_lib ''not json'' =
      Inl (PyErr JSONDecodeError ''Expecting value: line 1 column 1 (char 0)'')"
    by (simp add: example_lib_def tick_payload_def null_price_payload_def ohlc_payload_def
        extra_field_payload_def)
  then show "on_message example_lib working_sink ''not json'' example_client =
     (Inl (PyErr JSONDecodeError ''Expecting value: line 1 column 1 (char 0)''), example_client)"
    by (rule on_message_decode_error)
qed

section \<open>Properties of authentication\<close>

text \<open>
  What the two token functions do with an answer whose status is not 200:
  \<^verbatim>\<open>Auth._get_token\<close> raises \<^verbatim>\<open>HTTPError\<close> for a status from 400 to 599 and returns
  \<^verbatim>\<open>None\<close> for any other; \<^verbatim>\<open>dnse_auth\<close> returns \<^verbatim>\<open>None\<close> for every one. An
  exception of \<^verbatim>\<open>Auth._get_token\<close> ends \<^verbatim>\<open>Config.__init__\<close> and \<^verbatim>\<open>run\<close>, before any
  connection is attempted.
\<close>

lemma Auth_get_token_status:
  assumes "http \<lparr>meth = ''POST'',
              url = ''https://services.entrade.com.vn/dnse-user-service/api/auth'',
              bearer = None,
              body = Some (PDict [(PStr ''username'', username),
                                  (PStr ''password'', password')])\<rparr> = Inr response"
    and "status_code response \<noteq> 200"
  shows "Auth_get_token http username password' =
     (if 400 \<le> status_code response \<and> status_code response < 500 then
        Inl (PyErr HTTPError ''{status_code} Client Error: {reason} for url: {url}'')
      else if 500 \<le> status_code response \<and> status_code response < 600 then
        Inl (PyErr HTTPError ''{status_code} Server Error: {reason} for url: {url}'')
      else Inr PNone)"
  using assms by (simp add: Auth_get_token_def raise_for_status_def)

lemma dnse_auth_status:
  assumes "http \<lparr>meth = ''POST'',
              url = ''https://services.entrade.com.vn/dnse-user-service/api/auth'',
              bearer = None,
              body = Some (PDict [(PStr ''username'', username),
                                  (PStr ''password'', password')])\<rparr> = Inr response"
    and "status_code response \<noteq> 200"
  shows "dnse_auth http username password' = Inr PNone"
  using assms by (simp add: dnse_auth_def)

lemma Config_init_auth_error:
  assumes "yaml_creds L open_read creds_path = Inr (usr, pwd)"
    and "Auth_get_token http usr pwd = Inl e"
  shows "Config_init L open_read http creds_path topics = Inl e"
  using assms by (simp add: Config_init_def Auth_init_def)

lemma run_auth_error:
  assumes "run_topics L topics = Inr elems"
    and "yaml_creds L (E_open_read E) creds_path = Inr (usr, pwd)"
    and "Auth_get_token (E_http E) usr pwd = Inl e"
  shows "run L E creds_path topics =
     Raised e [Log DEBUG ''Parsed topics: {topics_tuple}'' [PTuple elems]]"
  using assms by (simp add: run_def Let_def Config_init_auth_error)

text \<open>
  Claim C8 does not hold of the code: answered with status 204, \<^verbatim>\<open>Auth._get_token\<close>
  returns \<^verbatim>\<open>None\<close> (\<^verbatim>\<open>raise_for_status()\<close> raises for 400 to 599 only), and answered
  with status 401, \<^verbatim>\<open>dnse_auth\<close> of \<^verbatim>\<open>stream.py\<close> returns \<^verbatim>\<open>None\<close>; neither raises.
\<close>

theorem auth_non_200_returns_None:
  "Auth_get_token (answering 204) (PStr ''alice'') (PStr ''secret'') = Inr PNone \<and>
   dnse_auth (answering 401) (PStr ''alice'') (PStr ''secret'') = Inr PNone"
  by (simp add: Auth_get_token_def dnse_auth_def answering_def raise_for_status_def)

section \<open>Properties of \<^verbatim>\<open>run\<close>\<close>

text \<open>
  The topics check, case by case: an exception of \<^verbatim>\<open>ast.literal_eval\<close> is turned
  into \<^verbatim>\<open>ValueError\<close> when its class is \<^verbatim>\<open>ValueError\<close> or \<^verbatim>\<open>SyntaxError\<close> and is let
  through otherwise; a parsed value that is no list, and a collection with an element
  that is no string, raise \<^verbatim>\<open>ValueError\<close>. An exception of the check ends \<^verbatim>\<open>run\<close>
  before anything else is done.
\<close>

lemma run_topics_parse_error:
  assumes "literal_eval L s = Inl e"
  shows "run_topics L (PStr s) =
     (if catches ValueError (exc_class e) \<or> catches SyntaxError (exc_class e) then
        Inl (PyErr ValueError (''Failed to parse topics: '' @ str_of_error e))
      else Inl e)"
  using assms by (simp add: run_topics_def)

lemma run_topics_not_a_list:
  assumes "literal_eval L s = Inr v" "\<not> is_list v"
  shows "run_topics L (PStr s) =
     Inl (PyErr ValueError (''Failed to parse topics: '' @ ''Topics should be a list of strings.''))"
  using assms by (simp add: run_topics_def catches_def)

lemma run_topics_parsed_list:
  assumes "literal_eval L s = Inr (PList elems)"
  shows "run_topics L (PStr s) =
     (if list_all is_str elems then Inr elems
      else Inl (PyErr ValueError ''All topics must be strings.''))"
  using assms by (simp add: run_topics_def)

lemma run_topics_collection:
  "run_topics L (PList elems) =
     (if list_all is_str elems then Inr elems
      else Inl (PyErr ValueError ''All topics must be strings.''))"
  "run_topics L (PTuple elems) =
     (if list_all is_str elems then Inr elems
      else Inl (PyErr ValueError ''All topics must be strings.''))"
  by (simp_all add: run_topics_def)

lemma run_topics_error:
  "run_topics L topics = Inl e \<Longrightarrow> run L E creds_path topics = Raised e []"
  by (simp add: run_def)

text \<open>
  Claim C9 does not hold of the code: for the topics string \<^verbatim>\<open>{[]: 1}\<close>, which parses
  to no list, \<^verbatim>\<open>ast.literal_eval\<close> raises \<^verbatim>\<open>TypeError\<close> (a list is no dictionary key),
  the handler \<^verbatim>\<open>except (ValueError, SyntaxError)\<close> does not catch it, and \<^verbatim>\<open>run\<close>
  raises \<^verbatim>\<open>TypeError\<close>, not \<^verbatim>\<open>ValueError\<close>.
\<close>

theorem run_unhashable_topics_escapes:
  "run example_lib E ''creds.yaml'' (PStr ''{[]: 1}'') =
     Raised (PyErr TypeError (''unhashable type: '' @ quote ''list'')) []"
proof -
  have "literal_eval example_lib ''{[]: 1}'' =
      Inl (PyErr TypeError (''unhashable type: '' @ quote ''list''))"
    by (simp add: example_lib_def)
  from run_topics_parse_error [OF this]
  have "run_topics example_lib (PStr ''{[]: 1}'') =
      Inl (PyErr TypeError (''unhashable type: '' @ quote ''list''))"
    by (simp add: catches_def)
  then show ?thesis by (rule run_topics_error)
qed

section \<open>Properties of \<^verbatim>\<open>yaml_creds\<close>\<close>

text \<open>The body of the \<^verbatim>\<open>try\<close>, by what the file gives.\<close>

lemma yaml_creds_try_cases:
  "yaml_creds_try L open_read path =
     (case open_read path of
        Inl e \<Rightarrow> Inl e
      | Inr f \<Rightarrow>
          (case safe_load L f of
             Inl e \<Rightarrow> Inl e
           | Inr (PDict kvs) \<Rightarrow>
               (case map_of kvs (PStr ''usr'') of
                  None \<Rightarrow> Inl (PyErr KeyError (quote ''usr''))
                | Some username \<Rightarrow>
                    (case map_of kvs (PStr ''pwd'') of
                       None \<Rightarrow> Inl (PyErr KeyError (quote ''pwd''))
                     | Some pw \<Rightarrow> Inr (username, pw)))
           | Inr v \<Rightarrow>
               Inl (PyErr ValueError
                 ''The credentials file format is incorrect. Expected a dictionary.'')))"
  by (simp add: yaml_creds_try_def split: sum.splits pyval.splits option.splits)

text \<open>
  Claim C10, amended. For every path, \<^verbatim>\<open>yaml_creds\<close> either returns the pair stored
  under the \<^verbatim>\<open>usr\<close> and \<^verbatim>\<open>pwd\<close> keys of the dictionary the file parses to, or
  raises: \<^verbatim>\<open>FileNotFoundError\<close> when opening the file raises it (the file does not
  exist); \<^verbatim>\<open>ValueError\<close> when parsing raises \<^verbatim>\<open>YAMLError\<close> or the parsed value is no
  dictionary; \<^verbatim>\<open>KeyError\<close> when the \<^verbatim>\<open>usr\<close> or the \<^verbatim>\<open>pwd\<close> key is absent (or
  opening or parsing raises it); and any other exception of opening or parsing the
  file, unchanged. It never returns partial credentials.
\<close>

theorem yaml_creds_outcomes:
  "(case yaml_creds L open_read path of
      Inr (username, pw) \<Rightarrow>
        (\<exists>f kvs. open_read path = Inr f \<and> safe_load L f = Inr (PDict kvs) \<and>
           map_of kvs (PStr ''usr'') = Some username \<and> map_of kvs (PStr ''pwd'') = Some pw)
    | Inl err \<Rightarrow>
        (\<exists>e. (open_read path = Inl e \<or> (\<exists>f. open_read path = Inr f \<and> safe_load L f = Inl e)) \<and>
           (if exc_class e = FileNotFoundError then
              err = PyErr FileNotFoundError (''The file '' @ path @ '' does not exist.'')
            else if exc_class e = YAMLError then
              err = PyErr ValueError (''Error parsing the YAML file: '' @ str_of_error e)
            else if exc_class e = KeyError then
              err = PyErr KeyError
                (''Missing required key in the credentials file: '' @ str_of_error e)
            else err = e)) \<or>
        (\<exists>f v. open_read path = Inr f \<and> safe_load L f = Inr v \<and> \<not> is_dict v \<and>
           err = PyErr ValueError
             ''The credentials file format is incorrect. Expected a dictionary.'') \<or>
        (\<exists>f kvs. open_read path = Inr f \<and> safe_load L f = Inr (PDict kvs) \<and>
           map_of kvs (PStr ''usr'') = None \<and>
           err = PyErr KeyError
             (''Missing required key in the credentials file: '' @ quote ''usr'')) \<or>
        (\<exists>f kvs. open_read path = Inr f \<and> safe_load L f = Inr (PDict kvs) \<and>
           map_of kvs (PStr ''pwd'') = None \<and>
           err = PyErr KeyError
             (''Missing required key in the credentials file: '' @ quote ''pwd'')))"
proof (cases "open_read path")
  case (Inl e)
  then show ?thesis
    by (auto simp: yaml_creds_def yaml_creds_try_cases catches_def)
next
  case f: (Inr f)
  show ?thesis
  proof (cases "safe_load L f")
    case (Inl e)
    with f show ?thesis
      by (auto simp: yaml_creds_def yaml_creds_try_cases catches_def)
  next
    case v: (Inr v)
    show ?thesis
    proof (cases "is_dict v")
      case False
      with f v show ?thesis
        by (cases v) (auto simp: yaml_creds_def yaml_creds_try_cases catches_def)
    next
      case True
      then obtain kvs where "v = PDict kvs" by (cases v) auto
      with f v show ?thesis
        by (auto simp: yaml_creds_def yaml_creds_try_cases catches_def split: option.splits)
    qed
  qed
qed

text \<open>
  Claim C10 as it stands fails: for the path of a directory, \<^verbatim>\<open>open\<close> raises
  \<^verbatim>\<open>IsADirectoryError\<close>, which none of the three handlers catches, and
  \<^verbatim>\<open>yaml_creds\<close> raises it: none of the three exceptions the claim lists.
\<close>

theorem yaml_creds_directory_counterexample:
  "yaml_creds example_lib example_open ''/tmp'' =
     Inl (PyErr IsADirectoryError (''[Errno 21] Is a directory: '' @ quote ''/tmp''))"
  by (simp add: yaml_creds_def yaml_creds_try_def example_open_def catches_def)

text \<open>The credentials file of the examples, and a file that does not exist.\<close>

lemma yaml_creds_examples:
  "yaml_creds example_lib example_open ''creds.yaml'' = Inr (PStr ''alice'', PStr ''secret'')"
  "yaml_creds example_lib example_open ''missing.yaml'' =
     Inl (PyErr FileNotFoundError ''The file missing.yaml does not exist.'')"
  by (simp_all add: yaml_creds_def yaml_creds_try_def example_open_def example_lib_def catches_def)

text \<open>The credentials read are the ones the file's dictionary stores.\<close>

theorem yaml_creds_outcomes_example:
  "yaml_creds example_lib example_open ''creds.yaml'' = Inr (PStr ''alice'', PStr ''secret'') \<and>
   (\<exists>f kvs. example_open ''creds.yaml'' = Inr f \<and> safe_load example_lib f = Inr (PDict kvs) \<and>
      map_of kvs (PStr ''usr'') = Some (PStr ''alice'') \<and>
      map_of kvs (PStr ''pwd'') = Some (PStr ''secret''))"
  using yaml_creds_outcomes [where L = example_lib and open_read = example_open
      and path = "''creds.yaml''"]
  by (simp add: yaml_creds_examples)

end
